theory Spec2Isabelle
  imports Complex_Main "HOL-Library.Char_ord" "HOL-Library.List_Lexorder"
begin

section \<open>Cells, errors and float arithmetic\<close>

text \<open>
  The program is a pandas pipeline (\<^verbatim>\<open>process_data\<close>, \<^verbatim>\<open>identify_issues\<close> in
  \<^verbatim>\<open>app.py\<close>). A data frame is modelled as its list of column labels together with its
  rows; a row is a record with one field per column the program reads.

  Cell types follow the dtypes of the data model: text columns (tracking number, order number,
  countries, dates) have dtype \<^verbatim>\<open>object\<close> and hold a string or null (\<open>None\<close>); numeric columns
  (costs, payout, weight) have dtype \<^verbatim>\<open>float64\<close>. Strings are byte lists, non-ASCII text is
  written as its UTF-8 bytes.

  A \<^verbatim>\<open>float64\<close> cell is \<open>NaN\<close> (which is also pandas' null of a numeric column), a finite
  number or one of the two infinities. Finite numbers are read as exact rationals: the model
  abstracts from binary rounding and overflow and has a single zero, read as \<^verbatim>\<open>+0.0\<close> (a
  payout of \<^verbatim>\<open>-0.0\<close> gives the infinity of the other sign, and a double next to a rounding tie
  may round to the other neighbour). Element-wise arithmetic on a column of dtype
  \<^verbatim>\<open>float64\<close> follows IEEE 754 and never raises: a division by zero gives an infinity or
  \<open>NaN\<close>. On a column of dtype \<^verbatim>\<open>object\<close> the same operator runs Python's division on each
  pair of cells, which raises \<^verbatim>\<open>ZeroDivisionError\<close> on a zero divisor.

  The dtype of a column is the one \<^verbatim>\<open>read_excel\<close> and \<^verbatim>\<open>read_csv\<close> infer, and the merge
  keeps it. Every column of a file without rows is \<^verbatim>\<open>object\<close>. In a file with rows, a numeric
  column is \<^verbatim>\<open>float64\<close>, and a text column is \<^verbatim>\<open>object\<close> when it holds a string and
  \<^verbatim>\<open>float64\<close> when all its cells are empty.
\<close>

datatype float64 = NaN | Fin rat | PInf | NInf

type_synonym strcell = "string option"

datatype error = KeyError "string list" | IndexError | ValueError | AttributeError
  | ZeroDivisionError

datatype dtype = Float64 | Object

definition text_dtype :: "strcell list \<Rightarrow> dtype" where
  "text_dtype col = (if col \<noteq> [] \<and> (\<forall>c \<in> set col. c = None) then Float64 else Object)"

definition bind :: "error + 'a \<Rightarrow> ('a \<Rightarrow> error + 'b) \<Rightarrow> error + 'b" where
  "bind m f = (case m of Inl e \<Rightarrow> Inl e | Inr x \<Rightarrow> f x)"

fun fsign :: "float64 \<Rightarrow> int" where
  "fsign NaN = 0"
| "fsign (Fin a) = (if a < 0 then - 1 else if a = 0 then 0 else 1)"
| "fsign PInf = 1"
| "fsign NInf = - 1"

definition signed_inf :: "int \<Rightarrow> float64" where
  "signed_inf s = (if s = 0 then NaN else if 0 < s then PInf else NInf)"

fun fmul :: "float64 \<Rightarrow> float64 \<Rightarrow> float64" where
  "fmul NaN y = NaN"
| "fmul x NaN = NaN"
| "fmul (Fin a) (Fin b) = Fin (a * b)"
| "fmul x y = signed_inf (fsign x * fsign y)"

fun fdiv :: "float64 \<Rightarrow> float64 \<Rightarrow> float64" where
  "fdiv NaN y = NaN"
| "fdiv x NaN = NaN"
| "fdiv (Fin a) (Fin b) = (if b = 0 then signed_inf (fsign (Fin a)) else Fin (a / b))"
| "fdiv (Fin a) y = Fin 0"
| "fdiv x (Fin b) = signed_inf (fsign x * (if b < 0 then - 1 else 1))"
| "fdiv x y = NaN"

fun fsub :: "float64 \<Rightarrow> float64 \<Rightarrow> float64" where
  "fsub NaN y = NaN"
| "fsub x NaN = NaN"
| "fsub (Fin a) (Fin b) = Fin (a - b)"
| "fsub PInf PInf = NaN"
| "fsub NInf NInf = NaN"
| "fsub PInf y = PInf"
| "fsub NInf y = NInf"
| "fsub x PInf = NInf"
| "fsub x NInf = PInf"

text \<open>\<^verbatim>\<open>Series.round(2)\<close>: round half to even on the scaled value; \<open>NaN\<close> and the infinities
  are left as they are.\<close>

definition round_half_even :: "rat \<Rightarrow> int" where
  "round_half_even x =
     (let n = \<lfloor>x\<rfloor>; d = x - of_int n
      in if d < 1 / 2 then n else if 1 / 2 < d then n + 1 else if even n then n else n + 1)"

fun fround :: "nat \<Rightarrow> float64 \<Rightarrow> float64" where
  "fround k (Fin a) = Fin (of_int (round_half_even (a * 10 ^ k)) / 10 ^ k)"
| "fround k x = x"

fun notna :: "float64 \<Rightarrow> bool" where
  "notna NaN = False"
| "notna x = True"

fun isinf :: "float64 \<Rightarrow> bool" where
  "isinf PInf = True"
| "isinf NInf = True"
| "isinf x = False"


text \<open>\<^verbatim>\<open>a / b\<close> on two columns. With two \<^verbatim>\<open>float64\<close> columns the division is IEEE 754;
  when a column is \<^verbatim>\<open>object\<close>, Python divides cell by cell and a zero divisor raises.\<close>

fun column_div :: "dtype \<Rightarrow> dtype \<Rightarrow> float64 list \<Rightarrow> float64 list \<Rightarrow> error + float64 list" where
  "column_div Float64 Float64 xs ys = Inr (map2 fdiv xs ys)"
| "column_div a b xs ys =
     (if Fin 0 \<in> set ys then Inl ZeroDivisionError else Inr (map2 fdiv xs ys))"


section \<open>Module constants\<close>

text \<open>\<^verbatim>\<open>COUNTRY_MAP\<close>, the dictionary from Chinese to English country names (59 entries with
  pairwise different keys), in source order; \<^verbatim>\<open>RMB_TO_USD = 0.139\<close>.\<close>

definition COUNTRY_MAP :: "(string \<times> string) list" where
  "COUNTRY_MAP = [
  ([CHR 0xE7, CHR 0xBE, CHR 0x8E, CHR 0xE5, CHR 0x9B, CHR 0xBD],
    ''United States''),
  ([CHR 0xE8, CHR 0x8B, CHR 0xB1, CHR 0xE5, CHR 0x9B, CHR 0xBD],
    ''United Kingdom''),
  ([CHR 0xE6, CHR 0xBE, CHR 0xB3, CHR 0xE5, CHR 0xA4, CHR 0xA7, CHR 0xE5, CHR 0x88, CHR 0xA9, CHR 0xE4, CHR 0xBA, CHR 0x9A],
    ''Australia''),
  ([CHR 0xE7, CHR 0x88, CHR 0xB1, CHR 0xE5, CHR 0xB0, CHR 0x94, CHR 0xE5, CHR 0x85, CHR 0xB0],
    ''Ireland''),
  ([CHR 0xE5, CHR 0x8A, CHR 0xA0, CHR 0xE6, CHR 0x8B, CHR 0xBF, CHR 0xE5, CHR 0xA4, CHR 0xA7],
    ''Canada''),
  ([CHR 0xE8, CHR 0x8D, CHR 0xB7, CHR 0xE5, CHR 0x85, CHR 0xB0],
    ''Netherlands''),
  ([CHR 0xE6, CHR 0x8C, CHR 0xAA, CHR 0xE5, CHR 0xA8, CHR 0x81],
    ''Norway''),
  ([CHR 0xE9, CHR 0x98, CHR 0xBF, CHR 0xE8, CHR 0x81, CHR 0x94, CHR 0xE9, CHR 0x85, CHR 0x8B],
    ''United Arab Emirates''),
  ([CHR 0xE5, CHR 0xBE, CHR 0xB7, CHR 0xE5, CHR 0x9B, CHR 0xBD],
    ''Germany''),
  ([CHR 0xE4, CHR 0xB8, CHR 0xB9, CHR 0xE9, CHR 0xBA, CHR 0xA6],
    ''Denmark''),
  ([CHR 0xE4, CHR 0xBB, CHR 0xA5, CHR 0xE8, CHR 0x89, CHR 0xB2, CHR 0xE5, CHR 0x88, CHR 0x97],
    ''Israel''),
  ([CHR 0xE7, CHR 0x91, CHR 0x9E, CHR 0xE5, CHR 0x85, CHR 0xB8],
    ''Sweden''),
  ([CHR 0xE8, CHR 0x8A, CHR 0xAC, CHR 0xE5, CHR 0x85, CHR 0xB0],
    ''Finland''),
  ([CHR 0xE7, CHR 0x91, CHR 0x9E, CHR 0xE5, CHR 0xA3, CHR 0xAB],
    ''Switzerland''),
  ([CHR 0xE6, CHR 0x96, CHR 0xB0, CHR 0xE8, CHR 0xA5, CHR 0xBF, CHR 0xE5, CHR 0x85, CHR 0xB0],
    ''New Zealand''),
  ([CHR 0xE6, CHR 0xB3, CHR 0x95, CHR 0xE5, CHR 0x9B, CHR 0xBD],
    ''France''),
  ([CHR 0xE6, CHR 0x84, CHR 0x8F, CHR 0xE5, CHR 0xA4, CHR 0xA7, CHR 0xE5, CHR 0x88, CHR 0xA9],
    ''Italy''),
  ([CHR 0xE8, CHR 0xA5, CHR 0xBF, CHR 0xE7, CHR 0x8F, CHR 0xAD, CHR 0xE7, CHR 0x89, CHR 0x99],
    ''Spain''),
  ([CHR 0xE6, CHR 0xAF, CHR 0x94, CHR 0xE5, CHR 0x88, CHR 0xA9, CHR 0xE6, CHR 0x97, CHR 0xB6],
    ''Belgium''),
  ([CHR 0xE5, CHR 0xA5, CHR 0xA5, CHR 0xE5, CHR 0x9C, CHR 0xB0, CHR 0xE5, CHR 0x88, CHR 0xA9],
    ''Austria''),
  ([CHR 0xE6, CHR 0xB3, CHR 0xA2, CHR 0xE5, CHR 0x85, CHR 0xB0],
    ''Poland''),
  ([CHR 0xE8, CHR 0x91, CHR 0xA1, CHR 0xE8, CHR 0x90, CHR 0x84, CHR 0xE7, CHR 0x89, CHR 0x99],
    ''Portugal''),
  ([CHR 0xE6, CHR 0x97, CHR 0xA5, CHR 0xE6, CHR 0x9C, CHR 0xAC],
    ''Japan''),
  ([CHR 0xE9, CHR 0x9F, CHR 0xA9, CHR 0xE5, CHR 0x9B, CHR 0xBD],
    ''South Korea''),
  ([CHR 0xE6, CHR 0x96, CHR 0xB0, CHR 0xE5, CHR 0x8A, CHR 0xA0, CHR 0xE5, CHR 0x9D, CHR 0xA1],
    ''Singapore''),
  ([CHR 0xE9, CHR 0xA6, CHR 0x99, CHR 0xE6, CHR 0xB8, CHR 0xAF],
    ''Hong Kong''),
  ([CHR 0xE5, CHR 0x8F, CHR 0xB0, CHR 0xE6, CHR 0xB9, CHR 0xBE],
    ''Taiwan''),
  ([CHR 0xE9, CHR 0xA9, CHR 0xAC, CHR 0xE6, CHR 0x9D, CHR 0xA5, CHR 0xE8, CHR 0xA5, CHR 0xBF, CHR 0xE4, CHR 0xBA, CHR 0x9A],
    ''Malaysia''),
  ([CHR 0xE6, CHR 0xB3, CHR 0xB0, CHR 0xE5, CHR 0x9B, CHR 0xBD],
    ''Thailand''),
  ([CHR 0xE5, CHR 0x8D, CHR 0xB0, CHR 0xE5, CHR 0xBA, CHR 0xA6],
    ''India''),
  ([CHR 0xE5, CHR 0xA2, CHR 0xA8, CHR 0xE8, CHR 0xA5, CHR 0xBF, CHR 0xE5, CHR 0x93, CHR 0xA5],
    ''Mexico''),
  ([CHR 0xE5, CHR 0xB7, CHR 0xB4, CHR 0xE8, CHR 0xA5, CHR 0xBF],
    ''Brazil''),
  ([CHR 0xE5, CHR 0x8D, CHR 0x97, CHR 0xE9, CHR 0x9D, CHR 0x9E],
    ''South Africa''),
  ([CHR 0xE5, CHR 0xB8, CHR 0x8C, CHR 0xE8, CHR 0x85, CHR 0x8A],
    ''Greece''),
  ([CHR 0xE6, CHR 0x8D, CHR 0xB7, CHR 0xE5, CHR 0x85, CHR 0x8B],
    ''Czech Republic''),
  ([CHR 0xE5, CHR 0x8C, CHR 0x88, CHR 0xE7, CHR 0x89, CHR 0x99, CHR 0xE5, CHR 0x88, CHR 0xA9],
    ''Hungary''),
  ([CHR 0xE7, CHR 0xBD, CHR 0x97, CHR 0xE9, CHR 0xA9, CHR 0xAC, CHR 0xE5, CHR 0xB0, CHR 0xBC, CHR 0xE4, CHR 0xBA, CHR 0x9A],
    ''Romania''),
  ([CHR 0xE6, CHR 0x96, CHR 0xAF, CHR 0xE6, CHR 0xB4, CHR 0x9B, CHR 0xE4, CHR 0xBC, CHR 0x90, CHR 0xE5, CHR 0x85, CHR 0x8B],
    ''Slovakia''),
  ([CHR 0xE6, CHR 0x96, CHR 0xAF, CHR 0xE6, CHR 0xB4, CHR 0x9B, CHR 0xE6, CHR 0x96, CHR 0x87, CHR 0xE5, CHR 0xB0, CHR 0xBC, CHR 0xE4, CHR 0xBA, CHR 0x9A],
    ''Slovenia''),
  ([CHR 0xE5, CHR 0x85, CHR 0x8B, CHR 0xE7, CHR 0xBD, CHR 0x97, CHR 0xE5, CHR 0x9C, CHR 0xB0, CHR 0xE4, CHR 0xBA, CHR 0x9A],
    ''Croatia''),
  ([CHR 0xE4, CHR 0xBF, CHR 0x9D, CHR 0xE5, CHR 0x8A, CHR 0xA0, CHR 0xE5, CHR 0x88, CHR 0xA9, CHR 0xE4, CHR 0xBA, CHR 0x9A],
    ''Bulgaria''),
  ([CHR 0xE5, CHR 0xA1, CHR 0x9E, CHR 0xE6, CHR 0xB5, CHR 0xA6, CHR 0xE8, CHR 0xB7, CHR 0xAF, CHR 0xE6, CHR 0x96, CHR 0xAF],
    ''Cyprus''),
  ([CHR 0xE7, CHR 0x88, CHR 0xB1, CHR 0xE6, CHR 0xB2, CHR 0x99, CHR 0xE5, CHR 0xB0, CHR 0xBC, CHR 0xE4, CHR 0xBA, CHR 0x9A],
    ''Estonia''),
  ([CHR 0xE6, CHR 0x8B, CHR 0x89, CHR 0xE8, CHR 0x84, CHR 0xB1, CHR 0xE7, CHR 0xBB, CHR 0xB4, CHR 0xE4, CHR 0xBA, CHR 0x9A],
    ''Latvia''),
  ([CHR 0xE7, CHR 0xAB, CHR 0x8B, CHR 0xE9, CHR 0x99, CHR 0xB6, CHR 0xE5, CHR 0xAE, CHR 0x9B],
    ''Lithuania''),
  ([CHR 0xE5, CHR 0x8D, CHR 0xA2, CHR 0xE6, CHR 0xA3, CHR 0xAE, CHR 0xE5, CHR 0xA0, CHR 0xA1],
    ''Luxembourg''),
  ([CHR 0xE9, CHR 0xA9, CHR 0xAC, CHR 0xE8, CHR 0x80, CHR 0xB3, CHR 0xE4, CHR 0xBB, CHR 0x96],
    ''Malta''),
  ([CHR 0xE5, CHR 0x86, CHR 0xB0, CHR 0xE5, CHR 0xB2, CHR 0x9B],
    ''Iceland''),
  ([CHR 0xE5, CHR 0x9C, CHR 0x9F, CHR 0xE8, CHR 0x80, CHR 0xB3, CHR 0xE5, CHR 0x85, CHR 0xB6],
    ''Turkey''),
  ([CHR 0xE4, CHR 0xBF, CHR 0x84, CHR 0xE7, CHR 0xBD, CHR 0x97, CHR 0xE6, CHR 0x96, CHR 0xAF],
    ''Russia''),
  ([CHR 0xE4, CHR 0xB9, CHR 0x8C, CHR 0xE5, CHR 0x85, CHR 0x8B, CHR 0xE5, CHR 0x85, CHR 0xB0],
    ''Ukraine''),
  ([CHR 0xE6, CHR 0xB2, CHR 0x99, CHR 0xE7, CHR 0x89, CHR 0xB9, CHR 0xE9, CHR 0x98, CHR 0xBF, CHR 0xE6, CHR 0x8B, CHR 0x89, CHR 0xE4, CHR 0xBC, CHR 0xAF],
    ''Saudi Arabia''),
  ([CHR 0xE5, CHR 0x8D, CHR 0xA1, CHR 0xE5, CHR 0xA1, CHR 0x94, CHR 0xE5, CHR 0xB0, CHR 0x94],
    ''Qatar''),
  ([CHR 0xE7, CHR 0xA7, CHR 0x91, CHR 0xE5, CHR 0xA8, CHR 0x81, CHR 0xE7, CHR 0x89, CHR 0xB9],
    ''Kuwait''),
  ([CHR 0xE5, CHR 0xB7, CHR 0xB4, CHR 0xE6, CHR 0x9E, CHR 0x97],
    ''Bahrain''),
  ([CHR 0xE9, CHR 0x98, CHR 0xBF, CHR 0xE6, CHR 0x9B, CHR 0xBC],
    ''Oman''),
  ([CHR 0xE8, CHR 0x8F, CHR 0xB2, CHR 0xE5, CHR 0xBE, CHR 0x8B, CHR 0xE5, CHR 0xAE, CHR 0xBE],
    ''Philippines''),
  ([CHR 0xE5, CHR 0x8D, CHR 0xB0, CHR 0xE5, CHR 0xBA, CHR 0xA6, CHR 0xE5, CHR 0xB0, CHR 0xBC, CHR 0xE8, CHR 0xA5, CHR 0xBF, CHR 0xE4, CHR 0xBA, CHR 0x9A],
    ''Indonesia''),
  ([CHR 0xE8, CHR 0xB6, CHR 0x8A, CHR 0xE5, CHR 0x8D, CHR 0x97],
    ''Vietnam'')]"

definition RMB_TO_USD :: float64 where
  "RMB_TO_USD = Fin (139 / 1000)"

text \<open>\<^verbatim>\<open>COUNTRY_MAP.get(chinese_name, chinese_name)\<close>. A null cell is not a key of the
  dictionary, so it is returned as it is.\<close>

definition translate_country :: "strcell \<Rightarrow> strcell" where
  "translate_country chinese_name =
     (case chinese_name of
        None \<Rightarrow> None
      | Some s \<Rightarrow> (case map_of COUNTRY_MAP s of Some english \<Rightarrow> Some english | None \<Rightarrow> Some s))"

section \<open>Data frames\<close>

text \<open>
  A frame is the list of its column labels and the list of its rows. The labels decide what
  \<^verbatim>\<open>df[label]\<close> finds: a label that is not among the columns raises \<^verbatim>\<open>KeyError\<close>. A row
  record gives the cell under each canonical label the program reads; a field whose label is not
  among the columns is never read, because the access fails first.

  Scope: the labels of a frame are taken to be pairwise different after renaming, and the order
  export is taken not to use the label \<^verbatim>\<open>_merge\<close>; what pandas does with duplicate labels
  is not modelled.
\<close>

record 'r frame =
  columns :: "string list"
  rows :: "'r list"

text \<open>The dtype of the numeric columns of a frame read from a file.\<close>

definition float_dtype :: "'r frame \<Rightarrow> dtype" where
  "float_dtype df = (if rows df = [] then Object else Float64)"

text \<open>Rows of the shipping file; the two records below add the columns that
  \<^verbatim>\<open>process_data\<close> assigns.\<close>

record shipping_rec =
  s_tracking_number :: strcell
  s_ship_date :: strcell
  s_shipping_cost_rmb :: float64
  s_country_chinese :: strcell
  s_weight_kg :: float64
  s_internal_order_id :: strcell

record shipping_usd = shipping_rec +
  s_shipping_cost_usd :: float64

record shipping_row = shipping_usd +
  s_country_from_shipping :: strcell

text \<open>Rows of the Shopify export.\<close>

record shopify_row =
  o_order_number :: strcell
  o_order_date :: strcell
  o_tracking_number :: strcell
  o_net_payout :: float64
  o_country :: strcell
  o_product_cost :: float64

text \<open>Rows of the merged frame: the columns of the order side, the selected columns of the
  shipment side, and the indicator column \<^verbatim>\<open>_merge\<close>; then the two derived columns.\<close>

datatype indicator = left_only | right_only | both

record merged_row =
  order_number :: strcell
  order_date :: strcell
  tracking_number :: strcell
  net_payout :: float64
  country :: strcell
  product_cost :: float64
  shipping_cost_usd :: float64
  shipping_cost_rmb :: float64
  weight_kg :: float64
  ship_date :: strcell
  country_from_shipping :: strcell
  merge_ind :: indicator

record joined_pct = merged_row +
  shipping_pct :: float64

record joined_row = joined_pct +
  profit :: float64

text \<open>\<^verbatim>\<open>df.rename(columns=m)\<close>: every label that is a key of \<open>m\<close> is replaced.\<close>

definition rename :: "(string \<times> string) list \<Rightarrow> 'r frame \<Rightarrow> 'r frame" where
  "rename m df =
     df\<lparr>columns := map (\<lambda>c. case map_of m c of Some c' \<Rightarrow> c' | None \<Rightarrow> c) (columns df)\<rparr>"

text \<open>\<^verbatim>\<open>df[c]\<close>, the column as a list of cells; \<open>sel\<close> is the field of the row record that
  holds the column.\<close>

definition getitem :: "'r frame \<Rightarrow> string \<Rightarrow> ('r \<Rightarrow> 'c) \<Rightarrow> error + 'c list" where
  "getitem df c sel =
     (if c \<in> set (columns df) then Inr (map sel (rows df)) else Inl (KeyError [c]))"

text \<open>\<^verbatim>\<open>df[[c1, ..., cn]]\<close>: the frame restricted to the listed columns; the error names the
  labels that are not found.\<close>

definition getitems :: "'r frame \<Rightarrow> string list \<Rightarrow> error + 'r frame" where
  "getitems df cs =
     (let missing = filter (\<lambda>c. c \<notin> set (columns df)) cs
      in if missing = [] then Inr (df\<lparr>columns := cs\<rparr>) else Inl (KeyError missing))"

text \<open>\<^verbatim>\<open>df[c] = vals\<close>: the column is appended (or replaced, when the label exists); \<open>put\<close>
  stores the cell in the row.\<close>

definition with_label :: "string list \<Rightarrow> string \<Rightarrow> string list" where
  "with_label cols c = (if c \<in> set cols then cols else cols @ [c])"

definition setitem :: "'r frame \<Rightarrow> string \<Rightarrow> 'c list \<Rightarrow> ('r \<Rightarrow> 'c \<Rightarrow> 'q) \<Rightarrow> 'q frame" where
  "setitem df c vals put =
     \<lparr>columns = with_label (columns df) c, rows = map2 put (rows df) vals\<rparr>"

text \<open>\<^verbatim>\<open>df[flags]\<close> with a boolean column.\<close>

definition boolean_index :: "'r frame \<Rightarrow> bool list \<Rightarrow> 'r frame" where
  "boolean_index df flags = df\<lparr>rows := map fst (filter snd (zip (rows df) flags))\<rparr>"


section \<open>The outer merge\<close>

text \<open>
  \<^verbatim>\<open>pd.merge(left, right, on='tracking_number', how='outer', indicator=True)\<close>.
  pandas groups the rows of both sides by key. The keys of the result are the non-null keys of
  either side, sorted, followed by the null group when a side has a null key: null keys form one
  group, so null keys of the two sides match each other. A key found on both sides gives every
  pair of a left and a right row (left rows in order, each with the right rows in order), tagged
  \<open>both\<close>; a key found on one side gives its rows once, the columns of the other side null,
  tagged \<open>left_only\<close> or \<open>right_only\<close>. The order of the groups is the one pandas documents
  for \<^verbatim>\<open>how='outer'\<close> (keys sorted); no theorem below depends on it.

  Before it joins, pandas compares the dtypes of the two key columns when both sides have rows:
  a key column of strings against a key column without any value (\<^verbatim>\<open>float64\<close>) raises
  \<^verbatim>\<open>ValueError\<close>. A label other than the key that both sides carry is renamed on both sides,
  with the suffixes \<^verbatim>\<open>_x\<close> (left) and \<^verbatim>\<open>_y\<close> (right), so the plain label is no column of the
  result.
\<close>

definition left_row :: "shopify_row \<Rightarrow> merged_row" where
  "left_row l =
     \<lparr>order_number = o_order_number l, order_date = o_order_date l,
      tracking_number = o_tracking_number l, net_payout = o_net_payout l,
      country = o_country l, product_cost = o_product_cost l,
      shipping_cost_usd = NaN, shipping_cost_rmb = NaN, weight_kg = NaN,
      ship_date = None, country_from_shipping = None, merge_ind = left_only\<rparr>"

definition right_row :: "shipping_row \<Rightarrow> merged_row" where
  "right_row r =
     \<lparr>order_number = None, order_date = None,
      tracking_number = s_tracking_number r, net_payout = NaN,
      country = None, product_cost = NaN,
      shipping_cost_usd = s_shipping_cost_usd r, shipping_cost_rmb = s_shipping_cost_rmb r,
      weight_kg = s_weight_kg r, ship_date = s_ship_date r,
      country_from_shipping = s_country_from_shipping r, merge_ind = right_only\<rparr>"

definition both_row :: "shopify_row \<Rightarrow> shipping_row \<Rightarrow> merged_row" where
  "both_row l r =
     \<lparr>order_number = o_order_number l, order_date = o_order_date l,
      tracking_number = o_tracking_number l, net_payout = o_net_payout l,
      country = o_country l, product_cost = o_product_cost l,
      shipping_cost_usd = s_shipping_cost_usd r, shipping_cost_rmb = s_shipping_cost_rmb r,
      weight_kg = s_weight_kg r, ship_date = s_ship_date r,
      country_from_shipping = s_country_from_shipping r, merge_ind = both\<rparr>"

definition group_rows :: "shopify_row list \<Rightarrow> shipping_row list \<Rightarrow> merged_row list" where
  "group_rows ls rs =
     (if rs = [] then map left_row ls
      else if ls = [] then map right_row rs
      else concat (map (\<lambda>l. map (both_row l) rs) ls))"

definition join_keys :: "strcell list \<Rightarrow> strcell list \<Rightarrow> strcell list" where
  "join_keys lk rk =
     map Some (sort (remdups (List.map_filter id (lk @ rk))))
       @ (if None \<in> set (lk @ rk) then [None] else [])"

definition merge_rows :: "shopify_row list \<Rightarrow> shipping_row list \<Rightarrow> merged_row list" where
  "merge_rows ls rs =
     concat (map (\<lambda>k. group_rows (filter (\<lambda>l. o_tracking_number l = k) ls)
                                  (filter (\<lambda>r. s_tracking_number r = k) rs))
                 (join_keys (map o_tracking_number ls) (map s_tracking_number rs)))"

definition merge_labels :: "string list \<Rightarrow> string list \<Rightarrow> string list" where
  "merge_labels lcols rcols =
     (let others = filter (\<lambda>c. c \<noteq> ''tracking_number'') rcols
      in map (\<lambda>c. if c \<in> set others then c @ ''_x'' else c) lcols
           @ map (\<lambda>c. if c \<in> set lcols then c @ ''_y'' else c) others @ [''_merge''])"

definition keys_incompatible :: "strcell list \<Rightarrow> strcell list \<Rightarrow> bool" where
  "keys_incompatible lk rk = (lk \<noteq> [] \<and> rk \<noteq> [] \<and> text_dtype lk \<noteq> text_dtype rk)"

definition merge_outer ::
    "shopify_row frame \<Rightarrow> shipping_row frame \<Rightarrow> error + merged_row frame" where
  "merge_outer left right =
     (if ''tracking_number'' \<notin> set (columns right) \<or> ''tracking_number'' \<notin> set (columns left)
      then Inl (KeyError [''tracking_number''])
      else if keys_incompatible (map o_tracking_number (rows left))
                (map s_tracking_number (rows right))
      then Inl ValueError
      else Inr \<lparr>columns = merge_labels (columns left) (columns right),
                rows = merge_rows (rows left) (rows right)\<rparr>)"


section \<open>\<^verbatim>\<open>process_data\<close>\<close>

definition shipping_columns :: "(string \<times> string) list" where
  "shipping_columns =
     [([CHR 0xE7, CHR 0x89, CHR 0xA9, CHR 0xE6, CHR 0xB5, CHR 0x81, CHR 0xE5, CHR 0x8D, CHR 0x95, CHR 0xE5, CHR 0x8F, CHR 0xB7],
       ''tracking_number''),
      ([CHR 0xE6, CHR 0x94, CHR 0xB6, CHR 0xE8, CHR 0xB4, CHR 0xA7, CHR 0xE6, CHR 0x97, CHR 0xB6, CHR 0xE9, CHR 0x97, CHR 0xB4],
       ''ship_date''),
      ([CHR 0xE6, CHR 0x80, CHR 0xBB, CHR 0xE9, CHR 0x87, CHR 0x91, CHR 0xE9, CHR 0xA2, CHR 0x9D],
       ''shipping_cost_rmb''),
      ([CHR 0xE5, CHR 0x9B, CHR 0xBD, CHR 0xE5, CHR 0xAE, CHR 0xB6, CHR 0x2F, CHR 0xE8, CHR 0xAE, CHR 0xA1, CHR 0xE8, CHR 0xB4, CHR 0xB9, CHR 0xE5, CHR 0x88, CHR 0x86, CHR 0xE5, CHR 0x8C, CHR 0xBA],
       ''country_chinese''),
      ([CHR 0xE8, CHR 0xAE, CHR 0xA1, CHR 0xE8, CHR 0xB4, CHR 0xB9, CHR 0xE9, CHR 0x87, CHR 0x8D],
       ''weight_kg''),
      ([CHR 0xE5, CHR 0xAE, CHR 0xA2, CHR 0xE6, CHR 0x88, CHR 0xB7, CHR 0xE5, CHR 0x8D, CHR 0x95, CHR 0xE5, CHR 0x8F, CHR 0xB7],
       ''internal_order_id'')]"

definition shopify_columns :: "(string \<times> string) list" where
  "shopify_columns =
     [(''Order'', ''order_number''),
      (''Order created at date'', ''order_date''),
      (''Tracking number'', ''tracking_number''),
      (''Net payout'', ''net_payout''),
      (''Shipping country'', ''country''),
      (''Cost'', ''product_cost'')]"

text \<open>The function returns the merged frame with its derived columns, the processed shipping
  frame and the renamed order frame; each column access that fails ends it with the
  \<^verbatim>\<open>KeyError\<close> of that access, in the order of the source. The merged columns
  \<^verbatim>\<open>shipping_cost_usd\<close> and \<^verbatim>\<open>net_payout\<close> have the dtype of the numeric columns of the
  side they come from.\<close>

definition process_data ::
    "shipping_rec frame \<Rightarrow> shopify_row frame
       \<Rightarrow> error + (joined_row frame \<times> shipping_row frame \<times> shopify_row frame)" where
  "process_data shipping_file shopify_file =
     (let shipping_df = rename shipping_columns shipping_file in
      bind (getitem shipping_df ''shipping_cost_rmb'' s_shipping_cost_rmb) (\<lambda>cost_rmb.
      let shipping_df = setitem shipping_df ''shipping_cost_usd''
                          (map (\<lambda>x. fmul x RMB_TO_USD) cost_rmb)
                          (\<lambda>r v. shipping_rec.extend r (shipping_usd.fields v)) in
      bind (getitem shipping_df ''country_chinese'' s_country_chinese) (\<lambda>country_chinese.
      let shipping_df = setitem shipping_df ''country_from_shipping''
                          (map translate_country country_chinese)
                          (\<lambda>r v. shipping_usd.extend r (shipping_row.fields v));
          shopify_df = rename shopify_columns shopify_file in
      bind (getitems shipping_df [''tracking_number'', ''shipping_cost_usd'',
              ''shipping_cost_rmb'', ''weight_kg'', ''ship_date'', ''country_from_shipping''])
        (\<lambda>selected.
      bind (merge_outer shopify_df selected) (\<lambda>merged_df.
      bind (getitem merged_df ''shipping_cost_usd'' shipping_cost_usd) (\<lambda>cost_usd.
      bind (getitem merged_df ''net_payout'' net_payout) (\<lambda>payout.
      bind (column_div (float_dtype selected) (float_dtype shopify_df) cost_usd payout) (\<lambda>ratio.
      let merged_df = setitem merged_df ''shipping_pct''
                        (map (fround 2) (map (\<lambda>x. fmul x (Fin 100)) ratio))
                        (\<lambda>r v. merged_row.extend r (joined_pct.fields v)) in
      bind (getitem merged_df ''net_payout'' net_payout) (\<lambda>payout.
      bind (getitem merged_df ''product_cost'' product_cost) (\<lambda>cost.
      bind (getitem merged_df ''shipping_cost_usd'' shipping_cost_usd) (\<lambda>cost_usd.
      let merged_df = setitem merged_df ''profit''
                        (map2 fsub (map2 fsub payout cost) cost_usd)
                        (\<lambda>r v. joined_pct.extend r (joined_row.fields v)) in
      Inr (merged_df, shipping_df, shopify_df))))))))))))"

section \<open>\<^verbatim>\<open>identify_issues\<close>\<close>

text \<open>The entries appended to the four lists of the issue dictionary, with the values of
  their keys in source order: \<^verbatim>\<open>tracking, shipping_cost, ship_date, country\<close>;
  \<^verbatim>\<open>order, tracking, net_payout, country\<close>; \<^verbatim>\<open>order, count, trackings, net_payout\<close>;
  \<^verbatim>\<open>order, tracking, shopify_country, shipping_country\<close>.\<close>

datatype issue =
    UnmatchedShipment strcell float64 strcell strcell
  | UnmatchedOrder strcell strcell float64 strcell
  | MultiTracking string nat "strcell list" float64
  | CountryMismatch strcell strcell strcell strcell

record issues =
  unmatched_shipments :: "issue list"
  unmatched_orders :: "issue list"
  multi_tracking :: "issue list"
  country_mismatch :: "issue list"

text \<open>\<^verbatim>\<open>Series.str\<close>: the accessor exists for a column of strings only; on a column of dtype
  \<^verbatim>\<open>float64\<close> it raises \<^verbatim>\<open>AttributeError\<close>. Then \<^verbatim>\<open>.contains(pat, na=na)\<close> for a
  pattern without regular-expression metacharacters: a search for the pattern as a substring in
  each cell; a null cell gives \<open>na\<close>.\<close>

definition str_accessor :: "strcell list \<Rightarrow> error + strcell list" where
  "str_accessor col = (if text_dtype col = Float64 then Inl AttributeError else Inr col)"

fun startswith :: "string \<Rightarrow> string \<Rightarrow> bool" where
  "startswith s [] = True"
| "startswith [] (p # pat) = False"
| "startswith (c # s) (p # pat) = (c = p \<and> startswith s pat)"

fun contains :: "string \<Rightarrow> string \<Rightarrow> bool" where
  "contains [] pat = (pat = [])"
| "contains (c # s) pat = (startswith (c # s) pat \<or> contains s pat)"

definition str_contains :: "string \<Rightarrow> bool \<Rightarrow> strcell \<Rightarrow> bool" where
  "str_contains pat na cell = (case cell of None \<Rightarrow> na | Some s \<Rightarrow> contains s pat)"

text \<open>Element-wise \<^verbatim>\<open>!=\<close> of two object columns: a null on either side compares unequal.\<close>

definition ne :: "strcell \<Rightarrow> strcell \<Rightarrow> bool" where
  "ne a b = (a = None \<or> b = None \<or> a \<noteq> b)"

text \<open>\<^verbatim>\<open>Series.value_counts()\<close>: nulls are dropped; each distinct value with its number of
  occurrences, most frequent first (values of equal count in order of first appearance).\<close>

definition uniques :: "'a list \<Rightarrow> 'a list" where
  "uniques xs = rev (remdups (rev xs))"

definition value_counts :: "'a option list \<Rightarrow> ('a \<times> nat) list" where
  "value_counts col =
     (let vals = List.map_filter id col
      in sort_key (\<lambda>(v, n). - int n) (map (\<lambda>v. (v, count_list vals v)) (uniques vals)))"

text \<open>\<^verbatim>\<open>Series.iloc[i]\<close>.\<close>

definition iloc :: "'a list \<Rightarrow> nat \<Rightarrow> error + 'a" where
  "iloc xs i = (if i < length xs then Inr (xs ! i) else Inl IndexError)"

text \<open>\<^verbatim>\<open>for _, row in df.iterrows(): if guard(row): out.append(entry(row))\<close>. Building the entry
  reads \<^verbatim>\<open>row[c]\<close> for the labels \<open>reads\<close>, in this order; the first label that is not a
  column raises.\<close>

fun iterrows ::
    "string list \<Rightarrow> ('r \<Rightarrow> bool) \<Rightarrow> string list \<Rightarrow> ('r \<Rightarrow> issue) \<Rightarrow> 'r list \<Rightarrow> issue list
       \<Rightarrow> error + issue list" where
  "iterrows cols guard reads entry [] out = Inr out"
| "iterrows cols guard reads entry (row # rest) out =
     (if guard row then
        (case filter (\<lambda>c. c \<notin> set cols) reads of
           c # _ \<Rightarrow> Inl (KeyError [c])
         | [] \<Rightarrow> iterrows cols guard reads entry rest (out @ [entry row]))
      else iterrows cols guard reads entry rest out)"

text \<open>The loop over \<^verbatim>\<open>multi_orders.items()\<close>.\<close>

fun multi_loop ::
    "shopify_row frame \<Rightarrow> (string \<times> nat) list \<Rightarrow> issue list \<Rightarrow> error + issue list" where
  "multi_loop shopify_df [] out = Inr out"
| "multi_loop shopify_df ((order_num, count) # rest) out =
     bind (getitem shopify_df ''order_number'' o_order_number) (\<lambda>numbers.
     let order_rows = boolean_index shopify_df (map (\<lambda>x. x = Some order_num) numbers) in
     bind (getitem order_rows ''tracking_number'' o_tracking_number) (\<lambda>trackings.
     bind (getitem order_rows ''net_payout'' o_net_payout) (\<lambda>payouts.
     bind (iloc payouts 0) (\<lambda>first_payout.
     multi_loop shopify_df rest
       (out @ [MultiTracking order_num count trackings first_payout])))))"

text \<open>The last block of \<^verbatim>\<open>identify_issues\<close> (lines 285 to 295): the rows tagged \<open>both\<close>,
  of these the rows whose two country cells compare unequal, and the loop with its
  \<^verbatim>\<open>notna\<close> guard.\<close>

definition country_mismatches :: "joined_row frame \<Rightarrow> error + issue list" where
  "country_mismatches merged_df =
     bind (getitem merged_df ''_merge'' merge_ind) (\<lambda>ind.
     let matched = boolean_index merged_df (map (\<lambda>x. x = both) ind) in
     bind (getitem matched ''country'' country) (\<lambda>shopify_country.
     bind (getitem matched ''country_from_shipping'' country_from_shipping) (\<lambda>shipping_country.
     let mismatches = boolean_index matched (map2 ne shopify_country shipping_country) in
     iterrows (columns mismatches)
       (\<lambda>row. country row \<noteq> None \<and> country_from_shipping row \<noteq> None)
       [''order_number'', ''tracking_number'', ''country'', ''country_from_shipping'']
       (\<lambda>row. CountryMismatch (order_number row) (tracking_number row)
                 (country row) (country_from_shipping row))
       (rows mismatches) [])))"

definition identify_issues ::
    "joined_row frame \<Rightarrow> shopify_row frame \<Rightarrow> error + issues" where
  "identify_issues merged_df shopify_df =
     bind (getitem merged_df ''_merge'' merge_ind) (\<lambda>ind.
     let unmatched_ship = boolean_index merged_df (map (\<lambda>x. x = right_only) ind) in
     bind (iterrows (columns unmatched_ship) (\<lambda>row. True)
             [''tracking_number'', ''shipping_cost_usd'', ''ship_date'', ''country_from_shipping'']
             (\<lambda>row. UnmatchedShipment (tracking_number row) (shipping_cost_usd row)
                       (ship_date row) (country_from_shipping row))
             (rows unmatched_ship) []) (\<lambda>unmatched_shipments.
     bind (getitem merged_df ''_merge'' merge_ind) (\<lambda>ind.
     bind (getitem merged_df ''tracking_number'' tracking_number) (\<lambda>tracking.
     bind (str_accessor tracking) (\<lambda>tracking.
     let unmatched_orders = boolean_index merged_df
           (map2 (\<and>) (map (\<lambda>x. x = left_only) ind) (map (str_contains ''4PX'' False) tracking)) in
     bind (iterrows (columns unmatched_orders) (\<lambda>row. True)
             [''order_number'', ''tracking_number'', ''net_payout'', ''country'']
             (\<lambda>row. UnmatchedOrder (order_number row) (tracking_number row)
                       (net_payout row) (country row))
             (rows unmatched_orders) []) (\<lambda>unmatched_orders.
     bind (getitem shopify_df ''order_number'' o_order_number) (\<lambda>numbers.
     let order_counts = value_counts numbers;
         multi_orders = filter (\<lambda>(order_num, count). 1 < count) order_counts in
     bind (multi_loop shopify_df multi_orders []) (\<lambda>multi_tracking.
     bind (country_mismatches merged_df) (\<lambda>country_mismatch.
     Inr \<lparr>unmatched_shipments = unmatched_shipments, unmatched_orders = unmatched_orders,
          multi_tracking = multi_tracking, country_mismatch = country_mismatch\<rparr>)))))))))"

text \<open>The guarded block of \<^verbatim>\<open>main\<close>: both functions in sequence; any exception ends the
  run.\<close>

definition run ::
    "shipping_rec frame \<Rightarrow> shopify_row frame \<Rightarrow> error + (joined_row frame \<times> issues)" where
  "run shipping_file shopify_file =
     bind (process_data shipping_file shopify_file) (\<lambda>(merged_df, shipping_processed, shopify_processed).
     bind (identify_issues merged_df shopify_processed) (\<lambda>issues.
     Inr (merged_df, issues)))"


section \<open>Row-wise reading of the column assignments\<close>

text \<open>The four column assignments of \<^verbatim>\<open>process_data\<close> compute each new cell from the
  cells of the same row. \<open>with_usd_country\<close> and \<open>with_metrics\<close> are these computations for
  one row, \<open>process_data_result\<close> is the triple the function returns when it returns; the
  lemmas of the next section prove that the column-wise definition agrees.\<close>

definition with_usd_country :: "shipping_rec \<Rightarrow> shipping_row" where
  "with_usd_country r =
     shipping_usd.extend
       (shipping_rec.extend r (shipping_usd.fields (fmul (s_shipping_cost_rmb r) RMB_TO_USD)))
       (shipping_row.fields (translate_country (s_country_chinese r)))"

definition with_metrics :: "merged_row \<Rightarrow> joined_row" where
  "with_metrics r =
     joined_pct.extend
       (merged_row.extend r (joined_pct.fields
          (fround 2 (fmul (fdiv (shipping_cost_usd r) (net_payout r)) (Fin 100)))))
       (joined_row.fields (fsub (fsub (net_payout r) (product_cost r)) (shipping_cost_usd r)))"

definition shipping_labels :: "shipping_rec frame \<Rightarrow> string list" where
  "shipping_labels shipping_file = columns (rename shipping_columns shipping_file)"

definition shopify_labels :: "shopify_row frame \<Rightarrow> string list" where
  "shopify_labels shopify_file = columns (rename shopify_columns shopify_file)"

definition process_data_result ::
    "shipping_rec frame \<Rightarrow> shopify_row frame
       \<Rightarrow> joined_row frame \<times> shipping_row frame \<times> shopify_row frame" where
  "process_data_result shipping_file shopify_file =
     (let scols = with_label (with_label (shipping_labels shipping_file) ''shipping_cost_usd'')
                    ''country_from_shipping'';
          mcols = with_label (with_label (merge_labels (shopify_labels shopify_file)
                    [''tracking_number'', ''shipping_cost_usd'', ''shipping_cost_rmb'',
                     ''weight_kg'', ''ship_date'', ''country_from_shipping''])
                    ''shipping_pct'') ''profit''
      in (\<lparr>columns = mcols,
           rows = map with_metrics
                    (merge_rows (rows shopify_file) (map with_usd_country (rows shipping_file)))\<rparr>,
          \<lparr>columns = scols, rows = map with_usd_country (rows shipping_file)\<rparr>,
          rename shopify_columns shopify_file))"


section \<open>The two sides of a merged row\<close>

text \<open>The cells a merged row carries from the order side and from the shipment side, and the
  cells of a shipment row that the selection \<^verbatim>\<open>shipping_df[[...]]\<close> keeps.\<close>

definition left_part :: "'a merged_row_scheme \<Rightarrow> shopify_row" where
  "left_part m =
     \<lparr>o_order_number = order_number m, o_order_date = order_date m,
      o_tracking_number = tracking_number m, o_net_payout = net_payout m,
      o_country = country m, o_product_cost = product_cost m\<rparr>"

definition right_part ::
    "'a merged_row_scheme \<Rightarrow> strcell \<times> float64 \<times> float64 \<times> float64 \<times> strcell \<times> strcell" where
  "right_part m =
     (tracking_number m, shipping_cost_usd m, shipping_cost_rmb m, weight_kg m, ship_date m,
      country_from_shipping m)"

definition selected_cells ::
    "shipping_row \<Rightarrow> strcell \<times> float64 \<times> float64 \<times> float64 \<times> strcell \<times> strcell" where
  "selected_cells r =
     (s_tracking_number r, s_shipping_cost_usd r, s_shipping_cost_rmb r, s_weight_kg r,
      s_ship_date r, s_country_from_shipping r)"


section \<open>Example batches\<close>

text \<open>A shipping file with two rows for tracking number \<open>T1\<close>, one row for \<open>T7\<close> whose
  country label is not in the dictionary, and one row without tracking number; an order export
  with two rows of order \<open>O1\<close> for \<open>T1\<close> (one with payout zero) and two orders that have no
  shipment. Both files carry every column under its source label.\<close>

definition example_shipping :: "shipping_rec frame" where
  "example_shipping =
     \<lparr>columns = map fst shipping_columns,
      rows =
        [\<lparr>s_tracking_number = Some ''T1'', s_ship_date = Some ''2024-01-05'',
          s_shipping_cost_rmb = Fin 100,
          s_country_chinese = Some [CHR 0xE7, CHR 0xBE, CHR 0x8E, CHR 0xE5, CHR 0x9B, CHR 0xBD],
          s_weight_kg = Fin (1 / 2), s_internal_order_id = None\<rparr>,
         \<lparr>s_tracking_number = Some ''T1'', s_ship_date = None,
          s_shipping_cost_rmb = Fin 50,
          s_country_chinese = Some [CHR 0xE8, CHR 0x8B, CHR 0xB1, CHR 0xE5, CHR 0x9B, CHR 0xBD],
          s_weight_kg = NaN, s_internal_order_id = None\<rparr>,
         \<lparr>s_tracking_number = Some ''T7'', s_ship_date = None,
          s_shipping_cost_rmb = Fin 20, s_country_chinese = Some ''Narnia'',
          s_weight_kg = NaN, s_internal_order_id = Some ''R-7''\<rparr>,
         \<lparr>s_tracking_number = None, s_ship_date = None,
          s_shipping_cost_rmb = NaN, s_country_chinese = None,
          s_weight_kg = NaN, s_internal_order_id = None\<rparr>]\<rparr>"

definition example_orders :: "shopify_row frame" where
  "example_orders =
     \<lparr>columns = map fst shopify_columns,
      rows =
        [\<lparr>o_order_number = Some ''O1'', o_order_date = Some ''2024-01-02'',
          o_tracking_number = Some ''T1'', o_net_payout = Fin 50,
          o_country = Some ''United States'', o_product_cost = Fin 10\<rparr>,
         \<lparr>o_order_number = Some ''O1'', o_order_date = Some ''2024-01-02'',
          o_tracking_number = Some ''T1'', o_net_payout = Fin 0,
          o_country = None, o_product_cost = Fin 5\<rparr>,
         \<lparr>o_order_number = Some ''O2'', o_order_date = None,
          o_tracking_number = Some ''4PX12345'', o_net_payout = Fin 30,
          o_country = Some ''Canada'', o_product_cost = NaN\<rparr>,
         \<lparr>o_order_number = Some ''O3'', o_order_date = None,
          o_tracking_number = Some ''DHL999'', o_net_payout = NaN,
          o_country = Some ''Canada'', o_product_cost = Fin 4\<rparr>]\<rparr>"

text \<open>One shipment and one order for the same tracking number, the order with payout zero.\<close>

definition zero_payout_shipping :: "shipping_rec frame" where
  "zero_payout_shipping =
     \<lparr>columns = map fst shipping_columns,
      rows =
        [\<lparr>s_tracking_number = Some ''T1'', s_ship_date = None, s_shipping_cost_rmb = Fin 100,
          s_country_chinese = None, s_weight_kg = NaN, s_internal_order_id = None\<rparr>]\<rparr>"

definition zero_payout_orders :: "shopify_row frame" where
  "zero_payout_orders =
     \<lparr>columns = map fst shopify_columns,
      rows =
        [\<lparr>o_order_number = Some ''O1'', o_order_date = None, o_tracking_number = Some ''T1'',
          o_net_payout = Fin 0, o_country = None, o_product_cost = Fin 10\<rparr>]\<rparr>"

text \<open>One shipment and one order, both without tracking number.\<close>

definition null_key_shipping :: "shipping_rec frame" where
  "null_key_shipping =
     \<lparr>columns = map fst shipping_columns,
      rows =
        [\<lparr>s_tracking_number = None, s_ship_date = None, s_shipping_cost_rmb = Fin 10,
          s_country_chinese = None, s_weight_kg = NaN, s_internal_order_id = None\<rparr>]\<rparr>"

definition null_key_orders :: "shopify_row frame" where
  "null_key_orders =
     \<lparr>columns = map fst shopify_columns,
      rows =
        [\<lparr>o_order_number = Some ''O9'', o_order_date = None, o_tracking_number = None,
          o_net_payout = Fin 20, o_country = None, o_product_cost = Fin 5\<rparr>]\<rparr>"


section \<open>Row-wise reading of the issue loops\<close>



definition mismatch_entry :: "'a merged_row_scheme \<Rightarrow> issue" where
  "mismatch_entry row =
     CountryMismatch (order_number row) (tracking_number row) (country row)
       (country_from_shipping row)"

definition rows_of_order :: "shopify_row frame \<Rightarrow> string \<Rightarrow> shopify_row list" where
  "rows_of_order shopify_df order_num =
     filter (\<lambda>r. o_order_number r = Some order_num) (rows shopify_df)"


text \<open>The issue report of the example batches.\<close>

definition example_issues :: issues where
  "example_issues =
     \<lparr>unmatched_shipments =
        [UnmatchedShipment (Some ''T7'') (Fin (139 / 50)) None (Some ''Narnia''),
         UnmatchedShipment None NaN None None],
      unmatched_orders =
        [UnmatchedOrder (Some ''O2'') (Some ''4PX12345'') (Fin 30) (Some ''Canada'')],
      multi_tracking =
        [MultiTracking ''O1'' 2 [Some ''T1'', Some ''T1''] (Fin 50)],
      country_mismatch =
        [CountryMismatch (Some ''O1'') (Some ''T1'') (Some ''United States'')
           (Some ''United Kingdom'')]\<rparr>"


section \<open>The columns a run reads\<close>

text \<open>The canonical labels that \<^verbatim>\<open>process_data\<close> and \<^verbatim>\<open>identify_issues\<close> look up in the
  renamed shipping file and in the renamed order export.\<close>

definition required_shipping_labels :: "string list" where
  "required_shipping_labels =
     [''shipping_cost_rmb'', ''country_chinese'', ''tracking_number'', ''weight_kg'', ''ship_date'']"

definition required_order_labels :: "string list" where
  "required_order_labels =
     [''tracking_number'', ''net_payout'', ''product_cost'', ''order_number'', ''country'']"

text \<open>The example shipping file without its weight column.\<close>

definition no_weight_shipping :: "shipping_rec frame" where
  "no_weight_shipping =
     example_shipping\<lparr>columns := filter (\<lambda>c. c \<noteq> fst (shipping_columns ! 4))
                                    (columns example_shipping)\<rparr>"


text \<open>Batches on which a step other than a column access fails: a shipping file without rows
  (all its columns are \<^verbatim>\<open>object\<close>), an order export whose tracking column is empty in every
  row (\<^verbatim>\<open>float64\<close>), and the example export with an additional column labelled
  \<^verbatim>\<open>ship_date\<close>.\<close>

definition header_only_shipping :: "shipping_rec frame" where
  "header_only_shipping = \<lparr>columns = map fst shipping_columns, rows = []\<rparr>"

definition untracked_orders :: "shopify_row frame" where
  "untracked_orders =
     \<lparr>columns = map fst shopify_columns,
      rows =
        [\<lparr>o_order_number = Some ''O5'', o_order_date = None, o_tracking_number = None,
          o_net_payout = Fin 12, o_country = Some ''Canada'', o_product_cost = Fin 3\<rparr>]\<rparr>"

definition clashing_orders :: "shopify_row frame" where
  "clashing_orders = example_orders\<lparr>columns := columns example_orders @ [''ship_date'']\<rparr>"


section \<open>Basic facts about frames\<close>

lemma bind_Inr [simp]: "bind (Inr x) f = f x"
  by (simp add: bind_def)

lemma bind_Inl [simp]: "bind (Inl e) f = Inl e"
  by (simp add: bind_def)

lemma bind_eq_Inr: "bind m f = Inr y \<longleftrightarrow> (\<exists>x. m = Inr x \<and> f x = Inr y)"
  by (cases m) simp_all

lemma getitem_eq_Inr:
  "getitem df c sel = Inr col \<longleftrightarrow> c \<in> set (columns df) \<and> col = map sel (rows df)"
  by (auto simp: getitem_def)

lemma getitem_present [simp]:
  "c \<in> set (columns df) \<Longrightarrow> getitem df c sel = Inr (map sel (rows df))"
  by (simp add: getitem_def)

lemma getitem_absent [simp]:
  "c \<notin> set (columns df) \<Longrightarrow> getitem df c sel = Inl (KeyError [c])"
  by (simp add: getitem_def)

lemma map2_map_same: "map2 f (map g xs) (map h xs) = map (\<lambda>x. f (g x) (h x)) xs"
  by (induction xs) simp_all

lemma map2_self_map: "map2 f xs (map h xs) = map (\<lambda>x. f x (h x)) xs"
  by (induction xs) simp_all

lemma rows_rename [simp]: "rows (rename m df) = rows df"
  by (simp add: rename_def)


lemma set_with_label [simp]: "set (with_label cols c) = insert c (set cols)"
  by (auto simp: with_label_def)

lemma columns_setitem [simp]: "columns (setitem df c vals put) = with_label (columns df) c"
  by (simp add: setitem_def)

lemma rows_setitem_map2 [simp]: "rows (setitem df c vals put) = map2 put (rows df) vals"
  by (simp add: setitem_def)

lemma getitems_present:
  "set cs \<subseteq> set (columns df) \<Longrightarrow> getitems df cs = Inr (df\<lparr>columns := cs\<rparr>)"
  by (simp add: getitems_def filter_empty_conv subset_iff)

lemma merge_outer_present:
  "''tracking_number'' \<in> set (columns right) \<Longrightarrow> ''tracking_number'' \<in> set (columns left) \<Longrightarrow>
   \<not> keys_incompatible (map o_tracking_number (rows left)) (map s_tracking_number (rows right)) \<Longrightarrow>
   merge_outer left right =
     Inr \<lparr>columns = merge_labels (columns left) (columns right),
          rows = merge_rows (rows left) (rows right)\<rparr>"
  by (simp add: merge_outer_def)

text \<open>Which labels the merged frame has. For the six columns selected from the shipping
  frame: a label of the order side stays, unless it is one of the five shipment labels; a
  shipment label is a column of the result only if the order side does not carry it.\<close>

lemma in_merge_labels:
  "a \<in> set (merge_labels lcols rcols) \<longleftrightarrow>
     (a \<in> set lcols \<and> a \<notin> set (filter (\<lambda>c. c \<noteq> ''tracking_number'') rcols))
     \<or> (\<exists>c \<in> set lcols. c \<in> set (filter (\<lambda>c. c \<noteq> ''tracking_number'') rcols) \<and> a = c @ ''_x'')
     \<or> (a \<in> set (filter (\<lambda>c. c \<noteq> ''tracking_number'') rcols) \<and> a \<notin> set lcols)
     \<or> (\<exists>c \<in> set lcols. c \<in> set (filter (\<lambda>c. c \<noteq> ''tracking_number'') rcols) \<and> a = c @ ''_y'')
     \<or> a = ''_merge''"
  unfolding merge_labels_def Let_def set_append set_map
  by (simp only: Un_iff image_iff) (simp, blast)

lemma merge_labels_left:
  assumes "c \<in> {''tracking_number'', ''order_number'', ''net_payout'', ''country'',
                ''product_cost''}"
  shows "c \<in> set (merge_labels lcols [''tracking_number'', ''shipping_cost_usd'',
           ''shipping_cost_rmb'', ''weight_kg'', ''ship_date'', ''country_from_shipping''])
         \<longleftrightarrow> c \<in> set lcols"
  using assms unfolding in_merge_labels by (elim insertE emptyE; simp; blast)

lemma merge_labels_right:
  assumes "c \<in> {''shipping_cost_usd'', ''ship_date'', ''country_from_shipping''}"
  shows "c \<in> set (merge_labels lcols [''tracking_number'', ''shipping_cost_usd'',
           ''shipping_cost_rmb'', ''weight_kg'', ''ship_date'', ''country_from_shipping''])
         \<longleftrightarrow> c \<notin> set lcols"
  using assms unfolding in_merge_labels by (elim insertE emptyE; simp; blast)

lemma merge_labels_indicator: "''_merge'' \<in> set (merge_labels lcols rcols)"
  by (simp add: merge_labels_def Let_def)


section \<open>The merge, group by group\<close>

lemma tracking_number_rows [simp]:
  "tracking_number (left_row l) = o_tracking_number l"
  "tracking_number (right_row r) = s_tracking_number r"
  "tracking_number (both_row l r) = o_tracking_number l"
  by (simp_all add: left_row_def right_row_def both_row_def)

lemma merge_ind_rows [simp]:
  "merge_ind (left_row l) = left_only"
  "merge_ind (right_row r) = right_only"
  "merge_ind (both_row l r) = both"
  by (simp_all add: left_row_def right_row_def both_row_def)

lemma group_rows_key:
  assumes "m \<in> set (group_rows (filter (\<lambda>l. o_tracking_number l = k) ls)
                                 (filter (\<lambda>r. s_tracking_number r = k) rs))"
  shows "tracking_number m = k"
  using assms by (auto simp: group_rows_def split: if_splits)

lemma set_dropna: "set (List.map_filter id xs) = {x. Some x \<in> set xs}"
  by (induction xs) (auto split: option.splits)

lemma set_join_keys: "set (join_keys lk rk) = set lk \<union> set rk"
proof -
  have "k \<in> set (join_keys lk rk) \<longleftrightarrow> k \<in> set lk \<union> set rk" for k
    by (cases k) (auto simp: join_keys_def set_dropna)
  then show ?thesis by blast
qed

lemma distinct_join_keys: "distinct (join_keys lk rk)"
  by (auto simp: join_keys_def distinct_map)

lemma filter_concat_keyed:
  assumes "distinct ks" and "\<And>k' x. k' \<in> set ks \<Longrightarrow> x \<in> set (g k') \<Longrightarrow> key x = k'"
  shows "filter (\<lambda>x. key x = k) (concat (map g ks)) = (if k \<in> set ks then g k else [])"
  using assms
proof (induction ks)
  case Nil
  then show ?case by simp
next
  case (Cons a ks)
  have here: "filter (\<lambda>x. key x = k) (g a) = (if k = a then g a else [])"
    using Cons.prems(2) [of a] by (auto simp: filter_empty_conv intro: filter_True)
  have rest: "filter (\<lambda>x. key x = k) (concat (map g ks)) = (if k \<in> set ks then g k else [])"
    using Cons.prems by (intro Cons.IH) auto
  show ?case
    using Cons.prems(1) by (auto simp: here rest)
qed

lemma merge_rows_group:
  "filter (\<lambda>m. tracking_number m = k) (merge_rows ls rs)
     = group_rows (filter (\<lambda>l. o_tracking_number l = k) ls)
                  (filter (\<lambda>r. s_tracking_number r = k) rs)"
proof -
  let ?g = "\<lambda>k. group_rows (filter (\<lambda>l. o_tracking_number l = k) ls)
                           (filter (\<lambda>r. s_tracking_number r = k) rs)"
  let ?ks = "join_keys (map o_tracking_number ls) (map s_tracking_number rs)"
  have "filter (\<lambda>m. tracking_number m = k) (concat (map ?g ?ks))
          = (if k \<in> set ?ks then ?g k else [])"
    by (rule filter_concat_keyed) (auto simp: distinct_join_keys dest: group_rows_key)
  moreover have "?g k = []" if "k \<notin> set ?ks"
  proof -
    from that have "filter (\<lambda>l. o_tracking_number l = k) ls = []"
      and "filter (\<lambda>r. s_tracking_number r = k) rs = []"
      by (auto simp: set_join_keys filter_empty_conv)
    then show ?thesis by (simp add: group_rows_def)
  qed
  ultimately show ?thesis
    by (simp add: merge_rows_def)
qed



lemma net_payout_rows [simp]:
  "net_payout (left_row l) = o_net_payout l"
  "net_payout (right_row r) = NaN"
  "net_payout (both_row l r) = o_net_payout l"
  by (simp_all add: left_row_def right_row_def both_row_def)

lemma in_merge_rows:
  "m \<in> set (merge_rows ls rs) \<longleftrightarrow>
     m \<in> set (group_rows (filter (\<lambda>l. o_tracking_number l = tracking_number m) ls)
                          (filter (\<lambda>r. s_tracking_number r = tracking_number m) rs))"
proof -
  have "m \<in> set (merge_rows ls rs)
          \<longleftrightarrow> m \<in> set (filter (\<lambda>m'. tracking_number m' = tracking_number m) (merge_rows ls rs))"
    by simp
  then show ?thesis
    by (simp only: merge_rows_group)
qed

lemma merge_rows_no_right: "set (merge_rows ls []) = left_row ` set ls"
proof (intro set_eqI iffI)
  fix m assume "m \<in> set (merge_rows ls [])"
  then have "m \<in> set (map left_row (filter (\<lambda>l. o_tracking_number l = tracking_number m) ls))"
    unfolding in_merge_rows [of m] by (simp add: group_rows_def)
  then show "m \<in> left_row ` set ls"
    by auto
next
  fix m assume "m \<in> left_row ` set ls"
  then obtain l where l: "l \<in> set ls" "m = left_row l"
    by blast
  then have "m \<in> set (map left_row (filter (\<lambda>l. o_tracking_number l = tracking_number m) ls))"
    by simp
  then show "m \<in> set (merge_rows ls [])"
    unfolding in_merge_rows [of m] by (simp add: group_rows_def)
qed

lemma merge_rows_no_left: "set (merge_rows [] rs) = right_row ` set rs"
proof (intro set_eqI iffI)
  fix m assume "m \<in> set (merge_rows [] rs)"
  then have "m \<in> set (map right_row (filter (\<lambda>r. s_tracking_number r = tracking_number m) rs))"
    unfolding in_merge_rows [of m] by (simp add: group_rows_def split: if_splits)
  then show "m \<in> right_row ` set rs"
    by auto
next
  fix m assume "m \<in> right_row ` set rs"
  then obtain r where r: "r \<in> set rs" "m = right_row r"
    by blast
  then have "m \<in> set (map right_row (filter (\<lambda>r. s_tracking_number r = tracking_number m) rs))"
    by simp
  then show "m \<in> set (merge_rows [] rs)"
    unfolding in_merge_rows [of m] by (auto simp: group_rows_def filter_empty_conv)
qed

lemma column_div_merged:
  "column_div (float_dtype right) (float_dtype left)
     (map shipping_cost_usd (merge_rows (rows left) (rows right)))
     (map net_payout (merge_rows (rows left) (rows right)))
   = (if rows right = [] \<and> Fin 0 \<in> o_net_payout ` set (rows left) then Inl ZeroDivisionError
      else Inr (map (\<lambda>m. fdiv (shipping_cost_usd m) (net_payout m))
                  (merge_rows (rows left) (rows right))))"
proof (cases "rows right = []")
  case True
  then have "Fin 0 \<in> set (map net_payout (merge_rows (rows left) (rows right)))
              \<longleftrightarrow> Fin 0 \<in> o_net_payout ` set (rows left)"
    by (auto simp: merge_rows_no_right image_iff)
  with True show ?thesis
    by (simp add: float_dtype_def map2_map_same)
next
  case right: False
  show ?thesis
  proof (cases "rows left = []")
    case True
    then have "Fin 0 \<notin> set (map net_payout (merge_rows (rows left) (rows right)))"
      by (auto simp: merge_rows_no_left)
    with True right show ?thesis
      by (simp add: float_dtype_def map2_map_same)
  next
    case False
    with right show ?thesis
      by (simp add: float_dtype_def map2_map_same)
  qed
qed

text \<open>The normal form of \<^const>\<open>process_data\<close>: the first failing step decides the error,
  and when no step fails the result is \<^const>\<open>process_data_result\<close>.\<close>

lemma process_data_eq:
  "process_data shipping_file shopify_file =
    (let scols = shipping_labels shipping_file; ocols = shopify_labels shopify_file;
         missing = filter (\<lambda>c. c \<notin> set scols) [''tracking_number'', ''weight_kg'', ''ship_date'']
     in if ''shipping_cost_rmb'' \<notin> set scols then Inl (KeyError [''shipping_cost_rmb''])
        else if ''country_chinese'' \<notin> set scols then Inl (KeyError [''country_chinese''])
        else if missing \<noteq> [] then Inl (KeyError missing)
        else if ''tracking_number'' \<notin> set ocols then Inl (KeyError [''tracking_number''])
        else if keys_incompatible (map o_tracking_number (rows shopify_file))
                  (map s_tracking_number (rows shipping_file))
          then Inl ValueError
        else if ''shipping_cost_usd'' \<in> set ocols then Inl (KeyError [''shipping_cost_usd''])
        else if ''net_payout'' \<notin> set ocols then Inl (KeyError [''net_payout''])
        else if rows shipping_file = [] \<and> Fin 0 \<in> o_net_payout ` set (rows shopify_file)
          then Inl ZeroDivisionError
        else if ''product_cost'' \<notin> set ocols then Inl (KeyError [''product_cost''])
        else Inr (process_data_result shipping_file shopify_file))"
proof -
  define s0 where "s0 = rename shipping_columns shipping_file"
  define o0 where "o0 = rename shopify_columns shopify_file"
  define s1 where "s1 = setitem s0 ''shipping_cost_usd''
      (map (\<lambda>x. fmul x RMB_TO_USD) (map s_shipping_cost_rmb (rows s0)))
      (\<lambda>r v. shipping_rec.extend r (shipping_usd.fields v))"
  define s2 where "s2 = setitem s1 ''country_from_shipping''
      (map translate_country (map s_country_chinese (rows s1)))
      (\<lambda>r v. shipping_usd.extend r (shipping_row.fields v))"
  define sel where "sel = s2\<lparr>columns := [''tracking_number'', ''shipping_cost_usd'',
      ''shipping_cost_rmb'', ''weight_kg'', ''ship_date'', ''country_from_shipping'']\<rparr>"
  define m0 where "m0 = \<lparr>columns = merge_labels (columns o0) (columns sel),
      rows = merge_rows (rows o0) (rows sel)\<rparr>"
  define ratio where
    "ratio = map (\<lambda>m. fdiv (shipping_cost_usd m) (net_payout m)) (merge_rows (rows o0) (rows sel))"
  define m1 where "m1 = setitem m0 ''shipping_pct''
      (map (fround 2) (map (\<lambda>x. fmul x (Fin 100)) ratio))
      (\<lambda>r v. merged_row.extend r (joined_pct.fields v))"
  define m2 where "m2 = setitem m1 ''profit''
      (map2 fsub (map2 fsub (map net_payout (rows m1)) (map product_cost (rows m1)))
         (map shipping_cost_usd (rows m1)))
      (\<lambda>r v. joined_pct.extend r (joined_row.fields v))"
  define scols where "scols = shipping_labels shipping_file"
  define ocols where "ocols = shopify_labels shopify_file"
  define missing where
    "missing = filter (\<lambda>c. c \<notin> set scols) [''tracking_number'', ''weight_kg'', ''ship_date'']"
  define clash where "clash = keys_incompatible (map o_tracking_number (rows shopify_file))
                  (map s_tracking_number (rows shipping_file))"
  define zero where
    "zero \<longleftrightarrow> rows shipping_file = [] \<and> Fin 0 \<in> o_net_payout ` set (rows shopify_file)"
  have s0: "columns s0 = scols" "rows s0 = rows shipping_file"
    by (simp_all add: s0_def shipping_labels_def scols_def)
  have o0: "columns o0 = ocols" "rows o0 = rows shopify_file"
    by (simp_all add: o0_def shopify_labels_def ocols_def)
  have rows_s2: "rows s2 = map with_usd_country (rows shipping_file)"
    by (simp add: s2_def s1_def s0 map2_self_map map2_map_same with_usd_country_def comp_def
          shipping_rec.defs shipping_usd.defs)
  have rows_sel: "rows sel = map with_usd_country (rows shipping_file)"
    by (simp add: sel_def rows_s2)
  have cols_sel: "columns sel = [''tracking_number'', ''shipping_cost_usd'',
      ''shipping_cost_rmb'', ''weight_kg'', ''ship_date'', ''country_from_shipping'']"
    by (simp add: sel_def)
  have rows_m0: "rows m0 = merge_rows (rows o0) (rows sel)"
    by (simp add: m0_def)
  have g1: "getitem s0 ''shipping_cost_rmb'' s_shipping_cost_rmb
              = Inr (map s_shipping_cost_rmb (rows s0))"
    if "''shipping_cost_rmb'' \<in> set scols"
    using that by (simp add: s0)
  have g1': "getitem s0 ''shipping_cost_rmb'' s_shipping_cost_rmb
              = Inl (KeyError [''shipping_cost_rmb''])"
    if "''shipping_cost_rmb'' \<notin> set scols"
    using that by (simp add: s0)
  have g2: "getitem s1 ''country_chinese'' s_country_chinese
              = Inr (map s_country_chinese (rows s1))"
    if "''country_chinese'' \<in> set scols"
    using that by (simp add: s1_def s0)
  have g2': "getitem s1 ''country_chinese'' s_country_chinese
              = Inl (KeyError [''country_chinese''])"
    if "''country_chinese'' \<notin> set scols"
    using that by (simp add: s1_def s0)
  have miss: "filter (\<lambda>c. c \<notin> set (columns s2)) [''tracking_number'', ''shipping_cost_usd'',
       ''shipping_cost_rmb'', ''weight_kg'', ''ship_date'', ''country_from_shipping''] = missing"
    if "''shipping_cost_rmb'' \<in> set scols"
    using that by (simp add: s2_def s1_def s0 missing_def)
  have g3: "getitems s2 [''tracking_number'', ''shipping_cost_usd'', ''shipping_cost_rmb'',
              ''weight_kg'', ''ship_date'', ''country_from_shipping'']
            = (if missing = [] then Inr sel else Inl (KeyError missing))"
    if "''shipping_cost_rmb'' \<in> set scols"
    unfolding getitems_def Let_def miss [OF that] by (simp add: sel_def)
  have keys: "map s_tracking_number (rows sel) = map s_tracking_number (rows shipping_file)"
    by (simp add: rows_sel with_usd_country_def comp_def shipping_rec.defs shipping_usd.defs)
  have g4: "merge_outer o0 sel = Inr m0" if "''tracking_number'' \<in> set ocols" "\<not> clash"
    using that unfolding merge_outer_def keys m0_def clash_def
    by (simp add: cols_sel o0)
  have g4': "merge_outer o0 sel = Inl (KeyError [''tracking_number''])"
    if "''tracking_number'' \<notin> set ocols"
    using that by (simp add: merge_outer_def o0)
  have g4'': "merge_outer o0 sel = Inl ValueError" if "''tracking_number'' \<in> set ocols" "clash"
    using that unfolding merge_outer_def keys clash_def
    by (simp add: cols_sel o0)
  have g5: "getitem m0 ''shipping_cost_usd'' shipping_cost_usd
              = Inr (map shipping_cost_usd (rows m0))"
    if "''shipping_cost_usd'' \<notin> set ocols"
    using that by (simp add: m0_def cols_sel o0 merge_labels_right)
  have g5': "getitem m0 ''shipping_cost_usd'' shipping_cost_usd
              = Inl (KeyError [''shipping_cost_usd''])"
    if "''shipping_cost_usd'' \<in> set ocols"
    using that by (simp add: m0_def cols_sel o0 merge_labels_right)
  have g6: "getitem m0 ''net_payout'' net_payout = Inr (map net_payout (rows m0))"
    if "''net_payout'' \<in> set ocols"
    using that by (simp add: m0_def cols_sel o0 merge_labels_left)
  have g6': "getitem m0 ''net_payout'' net_payout = Inl (KeyError [''net_payout''])"
    if "''net_payout'' \<notin> set ocols"
    using that by (simp add: m0_def cols_sel o0 merge_labels_left)
  have division: "column_div (float_dtype sel) (float_dtype o0)
          (map shipping_cost_usd (rows m0)) (map net_payout (rows m0))
        = (if zero then Inl ZeroDivisionError else Inr ratio)"
    unfolding rows_m0 column_div_merged ratio_def zero_def
    by (simp add: rows_sel o0)
  have g7: "getitem m1 ''net_payout'' net_payout = Inr (map net_payout (rows m1))"
    if "''net_payout'' \<in> set ocols"
    using that by (simp add: m1_def m0_def cols_sel o0 merge_labels_left)
  have g8: "getitem m1 ''product_cost'' product_cost = Inr (map product_cost (rows m1))"
    if "''product_cost'' \<in> set ocols"
    using that by (simp add: m1_def m0_def cols_sel o0 merge_labels_left)
  have g8': "getitem m1 ''product_cost'' product_cost = Inl (KeyError [''product_cost''])"
    if "''product_cost'' \<notin> set ocols"
    using that by (simp add: m1_def m0_def cols_sel o0 merge_labels_left)
  have g9: "getitem m1 ''shipping_cost_usd'' shipping_cost_usd
              = Inr (map shipping_cost_usd (rows m1))"
    if "''shipping_cost_usd'' \<notin> set ocols"
    using that by (simp add: m1_def m0_def cols_sel o0 merge_labels_right)
  have all_in: "''tracking_number'' \<in> set scols \<and> ''weight_kg'' \<in> set scols
      \<and> ''ship_date'' \<in> set scols" if "missing = []"
    using that by (simp add: missing_def split: if_splits)
  have rows_m2: "rows m2 = map with_metrics (merge_rows (rows shopify_file) (rows s2))"
    by (simp add: m2_def m1_def m0_def ratio_def sel_def o0 map2_map_same map2_self_map
          with_metrics_def comp_def merged_row.defs joined_pct.defs)
  have result: "(m2, s2, o0) = process_data_result shipping_file shopify_file"
  proof -
    have "m2 = fst (process_data_result shipping_file shopify_file)"
      by (rule frame.equality)
         (simp_all add: process_data_result_def rows_m2 rows_s2,
          simp_all add: m2_def m1_def m0_def cols_sel o0 ocols_def setitem_def)
    moreover have "s2 = fst (snd (process_data_result shipping_file shopify_file))"
      by (rule frame.equality)
         (simp_all add: process_data_result_def rows_s2,
          simp_all add: s2_def s1_def s0 scols_def setitem_def)
    moreover have "o0 = snd (snd (process_data_result shipping_file shopify_file))"
      by (simp add: process_data_result_def o0_def)
    ultimately show ?thesis
      by (metis prod.collapse)
  qed
  consider
      (a) "''shipping_cost_rmb'' \<notin> set scols"
    | (b) "''shipping_cost_rmb'' \<in> set scols" "''country_chinese'' \<notin> set scols"
    | (c) "''shipping_cost_rmb'' \<in> set scols" "''country_chinese'' \<in> set scols"
          "missing \<noteq> []"
    | (d) "''shipping_cost_rmb'' \<in> set scols" "''country_chinese'' \<in> set scols"
          "missing = []" "''tracking_number'' \<notin> set ocols"
    | (d2) "''shipping_cost_rmb'' \<in> set scols" "''country_chinese'' \<in> set scols"
          "missing = []" "''tracking_number'' \<in> set ocols" "clash"
    | (d3) "''shipping_cost_rmb'' \<in> set scols" "''country_chinese'' \<in> set scols"
          "missing = []" "''tracking_number'' \<in> set ocols" "\<not> clash"
          "''shipping_cost_usd'' \<in> set ocols"
    | (e) "''shipping_cost_rmb'' \<in> set scols" "''country_chinese'' \<in> set scols"
          "missing = []" "''tracking_number'' \<in> set ocols" "\<not> clash"
          "''shipping_cost_usd'' \<notin> set ocols" "''net_payout'' \<notin> set ocols"
    | (e2) "''shipping_cost_rmb'' \<in> set scols" "''country_chinese'' \<in> set scols"
          "missing = []" "''tracking_number'' \<in> set ocols" "\<not> clash"
          "''shipping_cost_usd'' \<notin> set ocols" "''net_payout'' \<in> set ocols" "zero"
    | (f) "''shipping_cost_rmb'' \<in> set scols" "''country_chinese'' \<in> set scols"
          "missing = []" "''tracking_number'' \<in> set ocols" "\<not> clash"
          "''shipping_cost_usd'' \<notin> set ocols" "''net_payout'' \<in> set ocols" "\<not> zero"
          "''product_cost'' \<notin> set ocols"
    | (g) "''shipping_cost_rmb'' \<in> set scols" "''country_chinese'' \<in> set scols"
          "missing = []" "''tracking_number'' \<in> set ocols" "\<not> clash"
          "''shipping_cost_usd'' \<notin> set ocols" "''net_payout'' \<in> set ocols" "\<not> zero"
          "''product_cost'' \<in> set ocols"
    by blast
  then have "process_data shipping_file shopify_file =
     (if ''shipping_cost_rmb'' \<notin> set scols then Inl (KeyError [''shipping_cost_rmb''])
      else if ''country_chinese'' \<notin> set scols then Inl (KeyError [''country_chinese''])
      else if missing \<noteq> [] then Inl (KeyError missing)
      else if ''tracking_number'' \<notin> set ocols then Inl (KeyError [''tracking_number''])
      else if clash then Inl ValueError
      else if ''shipping_cost_usd'' \<in> set ocols then Inl (KeyError [''shipping_cost_usd''])
      else if ''net_payout'' \<notin> set ocols then Inl (KeyError [''net_payout''])
      else if zero then Inl ZeroDivisionError
      else if ''product_cost'' \<notin> set ocols then Inl (KeyError [''product_cost''])
      else Inr (process_data_result shipping_file shopify_file))"
  proof cases
    case a
    have "process_data shipping_file shopify_file = Inl (KeyError [''shipping_cost_rmb''])"
      unfolding process_data_def Let_def s0_def [symmetric] o0_def [symmetric]
      by (simp only: g1' [OF a] bind_Inl)
    with a show ?thesis by simp
  next
    case b
    have "process_data shipping_file shopify_file = Inl (KeyError [''country_chinese''])"
      unfolding process_data_def Let_def s0_def [symmetric] o0_def [symmetric]
      by (simp only: g1 [OF b(1)] bind_Inr s1_def [symmetric] g2' [OF b(2)] bind_Inl)
    with b show ?thesis by simp
  next
    case c
    have "process_data shipping_file shopify_file = Inl (KeyError missing)"
      unfolding process_data_def Let_def s0_def [symmetric] o0_def [symmetric]
      by (simp only: g1 [OF c(1)] bind_Inr s1_def [symmetric] g2 [OF c(2)] s2_def [symmetric]
            g3 [OF c(1)] c(3) if_False bind_Inl)
    with c show ?thesis by simp
  next
    case d
    have "process_data shipping_file shopify_file = Inl (KeyError [''tracking_number''])"
      unfolding process_data_def Let_def s0_def [symmetric] o0_def [symmetric]
      by (simp only: g1 [OF d(1)] bind_Inr s1_def [symmetric] g2 [OF d(2)] s2_def [symmetric]
            g3 [OF d(1)] d(3) simp_thms if_True g4' [OF d(4)] bind_Inl)
    with d show ?thesis by simp
  next
    case d2
    have "process_data shipping_file shopify_file = Inl ValueError"
      unfolding process_data_def Let_def s0_def [symmetric] o0_def [symmetric]
      by (simp only: g1 [OF d2(1)] bind_Inr s1_def [symmetric] g2 [OF d2(2)] s2_def [symmetric]
            g3 [OF d2(1)] d2(3) simp_thms if_True g4'' [OF d2(4,5)] bind_Inl)
    with d2 show ?thesis by simp
  next
    case d3
    have "process_data shipping_file shopify_file = Inl (KeyError [''shipping_cost_usd''])"
      unfolding process_data_def Let_def s0_def [symmetric] o0_def [symmetric]
      by (simp only: g1 [OF d3(1)] bind_Inr s1_def [symmetric] g2 [OF d3(2)] s2_def [symmetric]
            g3 [OF d3(1)] d3(3) simp_thms if_True g4 [OF d3(4,5)] g5' [OF d3(6)] bind_Inl)
    with d3 show ?thesis by simp
  next
    case e
    have "process_data shipping_file shopify_file = Inl (KeyError [''net_payout''])"
      unfolding process_data_def Let_def s0_def [symmetric] o0_def [symmetric]
      by (simp only: g1 [OF e(1)] bind_Inr s1_def [symmetric] g2 [OF e(2)] s2_def [symmetric]
            g3 [OF e(1)] e(3) simp_thms if_True g4 [OF e(4,5)] g5 [OF e(6)] g6' [OF e(7)]
            bind_Inl)
    with e show ?thesis by simp
  next
    case e2
    have "process_data shipping_file shopify_file = Inl ZeroDivisionError"
      unfolding process_data_def Let_def s0_def [symmetric] o0_def [symmetric]
      by (simp only: g1 [OF e2(1)] bind_Inr s1_def [symmetric] g2 [OF e2(2)] s2_def [symmetric]
            g3 [OF e2(1)] e2(3) simp_thms if_True g4 [OF e2(4,5)] g5 [OF e2(6)] g6 [OF e2(7)]
            division e2(8) bind_Inl)
    with e2 show ?thesis by simp
  next
    case f
    have "process_data shipping_file shopify_file = Inl (KeyError [''product_cost''])"
      unfolding process_data_def Let_def s0_def [symmetric] o0_def [symmetric]
      by (simp only: g1 [OF f(1)] bind_Inr s1_def [symmetric] g2 [OF f(2)] s2_def [symmetric]
            g3 [OF f(1)] f(3) simp_thms if_True g4 [OF f(4,5)] g5 [OF f(6)] g6 [OF f(7)]
            division f(8) if_False m1_def [symmetric] g7 [OF f(7)] g8' [OF f(9)] bind_Inl)
    with f show ?thesis by simp
  next
    case g
    have "process_data shipping_file shopify_file = Inr (m2, s2, o0)"
      unfolding process_data_def Let_def s0_def [symmetric] o0_def [symmetric]
      by (simp only: g1 [OF g(1)] bind_Inr s1_def [symmetric] g2 [OF g(2)] s2_def [symmetric]
            g3 [OF g(1)] g(3) simp_thms if_True g4 [OF g(4,5)] g5 [OF g(6)] g6 [OF g(7)]
            division g(8) if_False m1_def [symmetric] g7 [OF g(7)] g8 [OF g(9)] g9 [OF g(6)]
            m2_def [symmetric])
    with g show ?thesis by (simp add: result)
  qed
  then show ?thesis
    by (simp add: Let_def scols_def ocols_def missing_def clash_def zero_def)
qed

lemma process_data_InrD:
  assumes "process_data shipping_file shopify_file = Inr (merged_df, shipping_df, shopify_df)"
  shows "rows shopify_df = rows shopify_file"
    and "rows shipping_df = map with_usd_country (rows shipping_file)"
    and "rows merged_df = map with_metrics (merge_rows (rows shopify_df) (rows shipping_df))"
    and "columns shopify_df = shopify_labels shopify_file"
proof -
  have "(merged_df, shipping_df, shopify_df) = process_data_result shipping_file shopify_file"
    using assms unfolding process_data_eq Let_def by (simp only: split: if_splits) simp_all
  then show "rows shopify_df = rows shopify_file"
    and "rows shipping_df = map with_usd_country (rows shipping_file)"
    and "rows merged_df = map with_metrics (merge_rows (rows shopify_df) (rows shipping_df))"
    and "columns shopify_df = shopify_labels shopify_file"
    by (simp_all add: process_data_result_def Let_def shopify_labels_def)
qed

text \<open>A run of \<^const>\<open>process_data\<close> that returns has found every label it reads, the two
  key columns of one dtype, and no object column to divide by a zero.\<close>

lemma process_data_Inr_labels:
  assumes "process_data shipping_file shopify_file = Inr result"
  shows "''shipping_cost_rmb'' \<in> set (shipping_labels shipping_file)"
    and "''country_chinese'' \<in> set (shipping_labels shipping_file)"
    and "''tracking_number'' \<in> set (shipping_labels shipping_file)"
    and "''weight_kg'' \<in> set (shipping_labels shipping_file)"
    and "''ship_date'' \<in> set (shipping_labels shipping_file)"
    and "''tracking_number'' \<in> set (shopify_labels shopify_file)"
    and "''net_payout'' \<in> set (shopify_labels shopify_file)"
    and "''product_cost'' \<in> set (shopify_labels shopify_file)"
    and "''shipping_cost_usd'' \<notin> set (shopify_labels shopify_file)"
    and "\<not> keys_incompatible (map o_tracking_number (rows shopify_file))
            (map s_tracking_number (rows shipping_file))"
    and "\<not> (rows shipping_file = [] \<and> Fin 0 \<in> o_net_payout ` set (rows shopify_file))"
    and "result = process_data_result shipping_file shopify_file"
proof -
  have *: "''shipping_cost_rmb'' \<in> set (shipping_labels shipping_file)
      \<and> ''country_chinese'' \<in> set (shipping_labels shipping_file)
      \<and> filter (\<lambda>c. c \<notin> set (shipping_labels shipping_file))
           [''tracking_number'', ''weight_kg'', ''ship_date''] = []
      \<and> ''tracking_number'' \<in> set (shopify_labels shopify_file)
      \<and> ''net_payout'' \<in> set (shopify_labels shopify_file)
      \<and> ''product_cost'' \<in> set (shopify_labels shopify_file)
      \<and> ''shipping_cost_usd'' \<notin> set (shopify_labels shopify_file)
      \<and> \<not> keys_incompatible (map o_tracking_number (rows shopify_file))
            (map s_tracking_number (rows shipping_file))
      \<and> \<not> (rows shipping_file = [] \<and> Fin 0 \<in> o_net_payout ` set (rows shopify_file))
      \<and> result = process_data_result shipping_file shopify_file"
    using assms unfolding process_data_eq Let_def by (simp only: split: if_splits) simp_all
  then have "filter (\<lambda>c. c \<notin> set (shipping_labels shipping_file))
           [''tracking_number'', ''weight_kg'', ''ship_date''] = []"
    by (elim conjE)
  then have "''tracking_number'' \<in> set (shipping_labels shipping_file)
      \<and> ''weight_kg'' \<in> set (shipping_labels shipping_file)
      \<and> ''ship_date'' \<in> set (shipping_labels shipping_file)"
    by (simp split: if_splits)
  with * show "''shipping_cost_rmb'' \<in> set (shipping_labels shipping_file)"
    and "''country_chinese'' \<in> set (shipping_labels shipping_file)"
    and "''tracking_number'' \<in> set (shipping_labels shipping_file)"
    and "''weight_kg'' \<in> set (shipping_labels shipping_file)"
    and "''ship_date'' \<in> set (shipping_labels shipping_file)"
    and "''tracking_number'' \<in> set (shopify_labels shopify_file)"
    and "''net_payout'' \<in> set (shopify_labels shopify_file)"
    and "''product_cost'' \<in> set (shopify_labels shopify_file)"
    and "''shipping_cost_usd'' \<notin> set (shopify_labels shopify_file)"
    and "\<not> keys_incompatible (map o_tracking_number (rows shopify_file))
            (map s_tracking_number (rows shipping_file))"
    and "\<not> (rows shipping_file = [] \<and> Fin 0 \<in> o_net_payout ` set (rows shopify_file))"
    and "result = process_data_result shipping_file shopify_file"
    by blast+
qed

text \<open>Conversely, with those conditions met the run returns.\<close>

lemma process_data_ok:
  assumes "''shipping_cost_rmb'' \<in> set (shipping_labels shipping_file)"
      and "''country_chinese'' \<in> set (shipping_labels shipping_file)"
      and "''tracking_number'' \<in> set (shipping_labels shipping_file)"
      and "''weight_kg'' \<in> set (shipping_labels shipping_file)"
      and "''ship_date'' \<in> set (shipping_labels shipping_file)"
      and "''tracking_number'' \<in> set (shopify_labels shopify_file)"
      and "''net_payout'' \<in> set (shopify_labels shopify_file)"
      and "''product_cost'' \<in> set (shopify_labels shopify_file)"
      and "''shipping_cost_usd'' \<notin> set (shopify_labels shopify_file)"
      and "\<not> keys_incompatible (map o_tracking_number (rows shopify_file))
            (map s_tracking_number (rows shipping_file))"
      and "\<not> (rows shipping_file = [] \<and> Fin 0 \<in> o_net_payout ` set (rows shopify_file))"
  shows "process_data shipping_file shopify_file
           = Inr (process_data_result shipping_file shopify_file)"
  unfolding process_data_eq Let_def using assms by simp


lemma with_metrics_fields [simp]:
  "tracking_number (with_metrics r) = tracking_number r"
  "merge_ind (with_metrics r) = merge_ind r"
  "order_number (with_metrics r) = order_number r"
  "net_payout (with_metrics r) = net_payout r"
  "product_cost (with_metrics r) = product_cost r"
  "country (with_metrics r) = country r"
  "shipping_cost_usd (with_metrics r) = shipping_cost_usd r"
  "ship_date (with_metrics r) = ship_date r"
  "country_from_shipping (with_metrics r) = country_from_shipping r"
  "shipping_pct (with_metrics r)
     = fround 2 (fmul (fdiv (shipping_cost_usd r) (net_payout r)) (Fin 100))"
  "profit (with_metrics r) = fsub (fsub (net_payout r) (product_cost r)) (shipping_cost_usd r)"
  by (simp_all add: with_metrics_def merged_row.defs joined_pct.defs joined_row.defs)

lemma with_metrics_parts [simp]:
  "left_part (with_metrics r) = left_part r"
  "right_part (with_metrics r) = right_part r"
  by (simp_all add: left_part_def right_part_def with_metrics_def merged_row.defs joined_pct.defs)

lemma with_usd_country_fields [simp]:
  "s_tracking_number (with_usd_country r) = s_tracking_number r"
  "s_shipping_cost_rmb (with_usd_country r) = s_shipping_cost_rmb r"
  "s_country_chinese (with_usd_country r) = s_country_chinese r"
  "s_shipping_cost_usd (with_usd_country r) = fmul (s_shipping_cost_rmb r) RMB_TO_USD"
  "s_country_from_shipping (with_usd_country r) = translate_country (s_country_chinese r)"
  "shipping_rec.truncate (with_usd_country r) = r"
  by (simp_all add: with_usd_country_def shipping_rec.defs shipping_usd.defs shipping_row.defs)

lemma row_parts [simp]:
  "left_part (left_row l) = l"
  "left_part (both_row l r) = l"
  "right_part (right_row r) = selected_cells r"
  "o_tracking_number l = s_tracking_number r \<Longrightarrow> right_part (both_row l r) = selected_cells r"
  by (simp_all add: left_part_def right_part_def selected_cells_def left_row_def right_row_def
        both_row_def)

lemma length_pairs: "length (concat (map (\<lambda>l. map (f l) rs) ls)) = length rs * length ls"
  by (induction ls) simp_all

lemma filter_rows_with_metrics:
  "filter (\<lambda>m. tracking_number m = k) (map with_metrics ms)
     = map with_metrics (filter (\<lambda>m. tracking_number m = k) ms)"
  by (simp add: filter_map comp_def)

lemma left_row_kept:
  assumes "l \<in> set ls"
  shows "\<exists>m \<in> set (merge_rows ls rs). merge_ind m \<noteq> right_only \<and> left_part m = l"
proof -
  let ?k = "o_tracking_number l"
  let ?ls = "filter (\<lambda>l. o_tracking_number l = ?k) ls"
  let ?rs = "filter (\<lambda>r. s_tracking_number r = ?k) rs"
  from assms have l: "l \<in> set ?ls" by simp
  have "\<exists>m \<in> set (group_rows ?ls ?rs). merge_ind m \<noteq> right_only \<and> left_part m = l"
  proof (cases "?rs = []")
    case True
    with l have "left_row l \<in> set (group_rows ?ls ?rs)"
      by (simp add: group_rows_def)
    then show ?thesis by (intro bexI [of _ "left_row l"]) simp_all
  next
    case False
    then obtain r where r: "r \<in> set ?rs" by (cases ?rs) auto
    with l False have "both_row l r \<in> set (group_rows ?ls ?rs)"
      by (auto simp: group_rows_def filter_empty_conv)
    then show ?thesis by (intro bexI [of _ "both_row l r"]) simp_all
  qed
  then obtain m where "m \<in> set (group_rows ?ls ?rs)" "merge_ind m \<noteq> right_only" "left_part m = l"
    by blast
  moreover from this(1) have "m \<in> set (filter (\<lambda>m. tracking_number m = ?k) (merge_rows ls rs))"
    by (simp only: merge_rows_group)
  ultimately show ?thesis by auto
qed

lemma right_row_kept:
  assumes "r \<in> set rs"
  shows "\<exists>m \<in> set (merge_rows ls rs). merge_ind m \<noteq> left_only \<and> right_part m = selected_cells r"
proof -
  let ?k = "s_tracking_number r"
  let ?ls = "filter (\<lambda>l. o_tracking_number l = ?k) ls"
  let ?rs = "filter (\<lambda>r. s_tracking_number r = ?k) rs"
  from assms have r: "r \<in> set ?rs" by simp
  have "\<exists>m \<in> set (group_rows ?ls ?rs). merge_ind m \<noteq> left_only \<and> right_part m = selected_cells r"
  proof (cases "?ls = []")
    case True
    with r have "right_row r \<in> set (group_rows ?ls ?rs)"
      by (auto simp: group_rows_def filter_empty_conv)
    then show ?thesis by (intro bexI [of _ "right_row r"]) simp_all
  next
    case False
    then obtain l where l: "l \<in> set ?ls" by (cases ?ls) auto
    with r False have "both_row l r \<in> set (group_rows ?ls ?rs)"
      by (auto simp: group_rows_def filter_empty_conv)
    moreover from l have "o_tracking_number l = s_tracking_number r" by simp
    ultimately show ?thesis by (intro bexI [of _ "both_row l r"]) simp_all
  qed
  then obtain m where "m \<in> set (group_rows ?ls ?rs)" "merge_ind m \<noteq> left_only"
      "right_part m = selected_cells r"
    by blast
  moreover from this(1) have "m \<in> set (filter (\<lambda>m. tracking_number m = ?k) (merge_rows ls rs))"
    by (simp only: merge_rows_group)
  ultimately show ?thesis by auto
qed




section \<open>The example batches, evaluated\<close>

lemma example_run:
  "process_data example_shipping example_orders
     = Inr (process_data_result example_shipping example_orders)"
  by (simp add: process_data_eq Let_def shipping_labels_def shopify_labels_def rename_def
        example_shipping_def example_orders_def shipping_columns_def shopify_columns_def
        keys_incompatible_def text_dtype_def)

lemma example_rows:
  "rows (fst (snd (process_data_result shipping_file shopify_file)))
     = map with_usd_country (rows shipping_file)"
  "rows (snd (snd (process_data_result shipping_file shopify_file))) = rows shopify_file"
  "rows (fst (process_data_result shipping_file shopify_file))
     = map with_metrics (merge_rows (rows shopify_file) (map with_usd_country (rows shipping_file)))"
  by (simp_all add: process_data_result_def Let_def)


lemma example_merged:
  "map (\<lambda>m. (tracking_number m, merge_ind m, net_payout m, shipping_cost_usd m, shipping_pct m))
     (rows (fst (process_data_result example_shipping example_orders))) =
   [(Some ''4PX12345'', left_only, Fin 30, NaN, NaN),
    (Some ''DHL999'', left_only, NaN, NaN, NaN),
    (Some ''T1'', both, Fin 50, Fin (139 / 10), Fin (139 / 5)),
    (Some ''T1'', both, Fin 50, Fin (139 / 20), Fin (139 / 10)),
    (Some ''T1'', both, Fin 0, Fin (139 / 10), PInf),
    (Some ''T1'', both, Fin 0, Fin (139 / 20), PInf),
    (Some ''T7'', right_only, NaN, Fin (139 / 50), NaN),
    (None, right_only, NaN, NaN, NaN)]"
  by code_simp


section \<open>The derived columns\<close>

lemma shipping_pct_cases:
  "shipping_pct (with_metrics r) = NaN \<longleftrightarrow>
     net_payout r = NaN \<or> shipping_cost_usd r = NaN
     \<or> (net_payout r = Fin 0 \<and> shipping_cost_usd r = Fin 0)
     \<or> (isinf (net_payout r) \<and> isinf (shipping_cost_usd r))"
  by (cases "shipping_cost_usd r"; cases "net_payout r") (simp_all add: signed_inf_def)

lemma shipping_pct_zero_payout:
  assumes "net_payout r = Fin 0" "shipping_cost_usd r \<noteq> NaN" "shipping_cost_usd r \<noteq> Fin 0"
  shows "isinf (shipping_pct (with_metrics r))"
  using assms by (cases "shipping_cost_usd r") (simp_all add: signed_inf_def)

lemma pairs_parts:
  assumes "\<forall>l \<in> set ls. o_tracking_number l = k" and "\<forall>r \<in> set rs. s_tracking_number r = k"
  shows "map (\<lambda>m. (left_part m, right_part m)) (concat (map (\<lambda>l. map (both_row l) rs) ls))
           = List.product ls (map selected_cells rs)"
  using assms
proof (induction ls)
  case Nil
  then show ?case by simp
next
  case (Cons l ls)
  have "map (\<lambda>m. (left_part m, right_part m)) (map (both_row l) rs)
          = map (Pair l) (map selected_cells rs)"
    using Cons.prems by (simp add: comp_def)
  with Cons show ?case by simp
qed

lemma merged_group:
  assumes "process_data shipping_file shopify_file = Inr (merged_df, shipping_df, shopify_df)"
  shows "filter (\<lambda>m. tracking_number m = k) (rows merged_df)
           = map with_metrics
               (group_rows (filter (\<lambda>l. o_tracking_number l = k) (rows shopify_df))
                           (filter (\<lambda>r. s_tracking_number r = k) (rows shipping_df)))"
  using process_data_InrD(3) [OF assms]
  by (simp add: filter_rows_with_metrics merge_rows_group)




section \<open>The issue loops\<close>

lemma select_flags [simp]: "map fst (filter snd (zip xs (map P xs))) = filter P xs"
  by (induction xs) simp_all

lemma boolean_index_map:
  "boolean_index df (map P (rows df)) = df\<lparr>rows := filter P (rows df)\<rparr>"
  by (simp add: boolean_index_def)

lemma iterrows_Inr:
  "iterrows cols guard reads entry rs out = Inr res
     \<Longrightarrow> res = out @ map entry (filter guard rs)"
proof (induction rs arbitrary: out)
  case Nil
  then show ?case by simp
next
  case (Cons r rs)
  show ?case
  proof (cases "guard r")
    case True
    with Cons.prems have "iterrows cols guard reads entry rs (out @ [entry r]) = Inr res"
      by (simp split: list.splits)
    from Cons.IH [OF this] True show ?thesis by simp
  next
    case False
    with Cons.prems have "iterrows cols guard reads entry rs out = Inr res"
      by simp
    from Cons.IH [OF this] False show ?thesis by simp
  qed
qed

lemma iterrows_present:
  "set reads \<subseteq> set cols
     \<Longrightarrow> iterrows cols guard reads entry rs out = Inr (out @ map entry (filter guard rs))"
proof (induction rs arbitrary: out)
  case Nil
  then show ?case by simp
next
  case (Cons r rs)
  from Cons.prems have "filter (\<lambda>c. c \<notin> set cols) reads = []"
    by (auto simp: filter_empty_conv)
  with Cons show ?case by simp
qed

lemma count_dropna: "count_list (List.map_filter id col) v = count_list col (Some v)"
  by (induction col) (auto split: option.splits)

lemma set_uniques [simp]: "set (uniques xs) = set xs"
  by (simp add: uniques_def)

lemma distinct_uniques [simp]: "distinct (uniques xs)"
  by (simp add: uniques_def)

lemma set_value_counts:
  "set (value_counts col) = {(v, count_list col (Some v)) |v. Some v \<in> set col}"
  by (auto simp: value_counts_def Let_def set_dropna count_dropna)

lemma boolean_index_rows:
  "boolean_index (df\<lparr>rows := xs\<rparr>) (map Q xs) = df\<lparr>rows := filter Q xs\<rparr>"
  by (simp add: boolean_index_def)




lemma country_mismatches_InrD:
  assumes "country_mismatches merged_df = Inr res"
  shows "res = map mismatch_entry
               (filter (\<lambda>r. merge_ind r = both \<and> country r \<noteq> None
                             \<and> country_from_shipping r \<noteq> None
                             \<and> country r \<noteq> country_from_shipping r)
                  (rows merged_df))
       \<and> ''country'' \<in> set (columns merged_df)"
proof -
  have raw: "res = map mismatch_entry
            (filter (\<lambda>r. country r \<noteq> None \<and> country_from_shipping r \<noteq> None)
               (filter (\<lambda>r. ne (country r) (country_from_shipping r))
                  (filter (\<lambda>r. merge_ind r = both) (rows merged_df))))"
    and col: "''country'' \<in> set (columns merged_df)"
    using assms
    by (auto simp: country_mismatches_def Let_def bind_eq_Inr getitem_eq_Inr boolean_index_map
          boolean_index_rows map2_map_same comp_def mismatch_entry_def [abs_def]
          simp del: filter_filter dest!: iterrows_Inr)
  have "filter (\<lambda>r. country r \<noteq> None \<and> country_from_shipping r \<noteq> None)
          (filter (\<lambda>r. ne (country r) (country_from_shipping r))
             (filter (\<lambda>r. merge_ind r = both) (rows merged_df)))
        = filter (\<lambda>r. merge_ind r = both \<and> country r \<noteq> None
                       \<and> country_from_shipping r \<noteq> None
                       \<and> country r \<noteq> country_from_shipping r) (rows merged_df)"
    unfolding filter_filter by (rule filter_cong) (auto simp: ne_def)
  with raw col show ?thesis
    by simp
qed

text \<open>The country block needs five labels and nothing of the cells: with the labels present
  it returns, whatever the rows hold.\<close>

lemma country_mismatches_present:
  assumes "''_merge'' \<in> set (columns merged_df)"
      and "''country'' \<in> set (columns merged_df)"
      and "''country_from_shipping'' \<in> set (columns merged_df)"
      and "''order_number'' \<in> set (columns merged_df)"
      and "''tracking_number'' \<in> set (columns merged_df)"
  shows "country_mismatches merged_df
           = Inr (map mismatch_entry
               (filter (\<lambda>r. merge_ind r = both \<and> country r \<noteq> None
                             \<and> country_from_shipping r \<noteq> None
                             \<and> country r \<noteq> country_from_shipping r)
                  (rows merged_df)))"
proof -
  have "country_mismatches merged_df
          = Inr ([] @ map mismatch_entry
            (filter (\<lambda>r. country r \<noteq> None \<and> country_from_shipping r \<noteq> None)
               (filter (\<lambda>r. ne (country r) (country_from_shipping r))
                  (filter (\<lambda>r. merge_ind r = both) (rows merged_df)))))"
    using assms
    by (simp add: country_mismatches_def Let_def boolean_index_map boolean_index_rows
          map2_map_same iterrows_present comp_def mismatch_entry_def [abs_def]
          del: filter_filter)
  then obtain res where res: "country_mismatches merged_df = Inr res"
    by blast
  from country_mismatches_InrD [OF res] res show ?thesis
    by simp
qed





lemma count_list_map: "count_list (map f xs) y = length (filter (\<lambda>x. f x = y) xs)"
  by (induction xs) auto

lemma multi_orders_rows:
  assumes "item \<in> set (filter (\<lambda>(order_num, count). 1 < count)
                          (value_counts (map o_order_number (rows shopify_df))))"
  shows "snd item = length (rows_of_order shopify_df (fst item))"
    and "2 \<le> length (rows_of_order shopify_df (fst item))"
  using assms by (auto simp: set_value_counts count_list_map rows_of_order_def)

lemma example_identify:
  "identify_issues (fst (process_data_result example_shipping example_orders))
     (snd (snd (process_data_result example_shipping example_orders))) = Inr example_issues"
  by code_simp


lemma result_columns:
  "c \<in> {''tracking_number'', ''order_number'', ''net_payout'', ''country'', ''product_cost''}
     \<Longrightarrow> c \<in> set (columns (fst (process_data_result shipping_file shopify_file)))
           \<longleftrightarrow> c \<in> set (shopify_labels shopify_file)"
  "columns (snd (snd (process_data_result shipping_file shopify_file)))
     = shopify_labels shopify_file"
proof -
  assume c: "c \<in> {''tracking_number'', ''order_number'', ''net_payout'', ''country'',
                    ''product_cost''}"
  then have "c \<noteq> ''shipping_pct''" "c \<noteq> ''profit''"
    by auto
  then show "c \<in> set (columns (fst (process_data_result shipping_file shopify_file)))
           \<longleftrightarrow> c \<in> set (shopify_labels shopify_file)"
    by (simp add: process_data_result_def Let_def merge_labels_left [OF c])
next
  show "columns (snd (snd (process_data_result shipping_file shopify_file)))
     = shopify_labels shopify_file"
    by (simp add: process_data_result_def Let_def shopify_labels_def)
qed

section \<open>The run as a whole\<close>

lemma run_eq:
  "run shipping_file shopify_file =
     (case process_data shipping_file shopify_file of
        Inl e \<Rightarrow> Inl e
      | Inr (merged_df, shipping_df, shopify_df) \<Rightarrow>
          (case identify_issues merged_df shopify_df of
             Inl e \<Rightarrow> Inl e
           | Inr issues \<Rightarrow> Inr (merged_df, issues)))"
  by (simp add: run_def bind_def split: sum.splits prod.splits)

lemma example_labels:
  "shipping_labels example_shipping
     = [''tracking_number'', ''ship_date'', ''shipping_cost_rmb'', ''country_chinese'',
        ''weight_kg'', ''internal_order_id'']"
  "shipping_labels no_weight_shipping
     = [''tracking_number'', ''ship_date'', ''shipping_cost_rmb'', ''country_chinese'',
        ''internal_order_id'']"
  "shopify_labels example_orders
     = [''order_number'', ''order_date'', ''tracking_number'', ''net_payout'', ''country'',
        ''product_cost'']"
  by code_simp+

lemma no_weight_run: "run no_weight_shipping example_orders = Inl (KeyError [''weight_kg''])"
  by code_simp

lemma example_full_run:
  "run example_shipping example_orders
     = Inr (fst (process_data_result example_shipping example_orders), example_issues)"
proof -
  obtain m s o' where R: "process_data_result example_shipping example_orders = (m, s, o')"
    by (cases "process_data_result example_shipping example_orders")
  from example_identify have "identify_issues m o' = Inr example_issues"
    by (simp add: R)
  then show ?thesis
    by (simp add: run_eq example_run R)
qed

section \<open>Claims\<close>

text \<open>
  C8. When \<^verbatim>\<open>process_data\<close> returns, every row of the processed shipping frame has
  \<^verbatim>\<open>shipping_cost_usd = shipping_cost_rmb * RMB_TO_USD\<close> in the arithmetic of the column (a
  null cost gives a null USD cost); for a finite cost \<open>c\<close> this is \<open>c * 0.139\<close>, the constant
  of the module (finite floats read as exact rationals).
\<close>

theorem usd_cost_invariant:
  assumes "process_data shipping_file shopify_file = Inr (merged_df, shipping_df, shopify_df)"
  shows "(\<forall>r \<in> set (rows shipping_df).
            s_shipping_cost_usd r = fmul (s_shipping_cost_rmb r) RMB_TO_USD)
       \<and> (\<forall>r \<in> set (rows shipping_df). \<forall>c. s_shipping_cost_rmb r = Fin c
            \<longrightarrow> s_shipping_cost_usd r = Fin (c * (139 / 1000)))"
proof -
  have "rows shipping_df = map with_usd_country (rows shipping_file)"
    using assms by (rule process_data_InrD)
  then show ?thesis
    by (auto simp: RMB_TO_USD_def)
qed


theorem usd_cost_invariant_witness:
  "process_data example_shipping example_orders
     = Inr (process_data_result example_shipping example_orders)
   \<and> map s_shipping_cost_rmb (rows (fst (snd (process_data_result example_shipping example_orders))))
       = [Fin 100, Fin 50, Fin 20, NaN]
   \<and> map s_shipping_cost_usd (rows (fst (snd (process_data_result example_shipping example_orders))))
       = [Fin (139 / 10), Fin (139 / 20), Fin (139 / 50), NaN]"
proof -
  let ?R = "process_data_result example_shipping example_orders"
  have run: "process_data example_shipping example_orders
               = Inr (fst ?R, fst (snd ?R), snd (snd ?R))"
    by (simp add: example_run)
  have rmb: "map s_shipping_cost_rmb (rows (fst (snd ?R))) = [Fin 100, Fin 50, Fin 20, NaN]"
    by (simp add: example_rows example_shipping_def)
  have "map s_shipping_cost_usd (rows (fst (snd ?R)))
          = map (\<lambda>r. fmul (s_shipping_cost_rmb r) RMB_TO_USD) (rows (fst (snd ?R)))"
    using usd_cost_invariant [OF run] by (intro map_cong) simp_all
  also have "\<dots> = map (\<lambda>x. fmul x RMB_TO_USD) (map s_shipping_cost_rmb (rows (fst (snd ?R))))"
    by (simp add: comp_def)
  also have "\<dots> = [Fin (139 / 10), Fin (139 / 20), Fin (139 / 50), NaN]"
    unfolding rmb by (simp add: RMB_TO_USD_def)
  finally show ?thesis
    using example_run rmb by simp
qed


text \<open>
  C9. A label that is not a key of \<^verbatim>\<open>COUNTRY_MAP\<close> is returned unchanged by
  \<^verbatim>\<open>translate_country\<close>, and so is a null label; the function has no error result. When
  \<^verbatim>\<open>process_data\<close> returns, the processed shipping frame has the rows of the shipping file,
  one for one and in order, each with the translated label in \<^verbatim>\<open>country_from_shipping\<close>: no
  record is dropped.
\<close>

theorem unknown_country_passes_through:
  "(label \<notin> fst ` set COUNTRY_MAP \<longrightarrow> translate_country (Some label) = Some label)
   \<and> translate_country None = None
   \<and> (process_data shipping_file shopify_file = Inr (merged_df, shipping_df, shopify_df)
        \<longrightarrow> map shipping_rec.truncate (rows shipping_df) = rows shipping_file
          \<and> (\<forall>r \<in> set (rows shipping_df).
                s_country_from_shipping r = translate_country (s_country_chinese r)))"
proof -
  have "map_of COUNTRY_MAP label = None" if "label \<notin> fst ` set COUNTRY_MAP"
    using that by (simp add: map_of_eq_None_iff)
  then have miss: "label \<notin> fst ` set COUNTRY_MAP \<longrightarrow> translate_country (Some label) = Some label"
    by (simp add: translate_country_def)
  have null: "translate_country None = None"
    by (simp add: translate_country_def)
  have kept: "map shipping_rec.truncate (rows shipping_df) = rows shipping_file
      \<and> (\<forall>r \<in> set (rows shipping_df).
            s_country_from_shipping r = translate_country (s_country_chinese r))"
    if "process_data shipping_file shopify_file = Inr (merged_df, shipping_df, shopify_df)"
  proof -
    have "rows shipping_df = map with_usd_country (rows shipping_file)"
      using that by (rule process_data_InrD)
    then show ?thesis
      by (auto simp: comp_def)
  qed
  from miss null kept show ?thesis by blast
qed

theorem unknown_country_passes_through_witness:
  "''Narnia'' \<notin> fst ` set COUNTRY_MAP
   \<and> translate_country (Some ''Narnia'') = Some ''Narnia''
   \<and> process_data example_shipping example_orders
       = Inr (process_data_result example_shipping example_orders)
   \<and> map shipping_rec.truncate
        (rows (fst (snd (process_data_result example_shipping example_orders))))
       = rows example_shipping"
proof -
  let ?R = "process_data_result example_shipping example_orders"
  have run: "process_data example_shipping example_orders
               = Inr (fst ?R, fst (snd ?R), snd (snd ?R))"
    by (simp add: example_run)
  have absent: "''Narnia'' \<notin> fst ` set COUNTRY_MAP"
    by (simp add: COUNTRY_MAP_def)
  from unknown_country_passes_through
         [of "''Narnia''" example_shipping example_orders "fst ?R" "fst (snd ?R)" "snd (snd ?R)"]
       absent run
  show ?thesis
    using example_run by simp
qed











end
